theory Spec2Isabelle
  imports Complex_Main
begin

section \<open>Floating-point values\<close>

text \<open>
  The program computes with Python and NumPy floats. A float is embedded as an optional
  real: \<open>None\<close> is NaN (the program's marker for a missing price and for an
  indicator without enough history), \<open>Some r\<close> is the number \<open>r\<close>. Arithmetic is
  exact, and rounding and overflow are outside the model, except in the double-precision
  version of the order calculator, which rounds after every operation. The sidebar inputs
  (budget, percentages) are plain reals, since the widgets never deliver NaN.
\<close>

type_synonym fl = "real option"

definition isnan :: "fl \<Rightarrow> bool" where
  "isnan x = (x = None)"

text \<open>Arithmetic on floats: a NaN operand gives NaN.\<close>

definition fl_add :: "fl \<Rightarrow> fl \<Rightarrow> fl" where
  "fl_add a b = (case a of None \<Rightarrow> None | Some x \<Rightarrow> (case b of None \<Rightarrow> None | Some y \<Rightarrow> Some (x + y)))"

definition fl_sub :: "fl \<Rightarrow> fl \<Rightarrow> fl" where
  "fl_sub a b = (case a of None \<Rightarrow> None | Some x \<Rightarrow> (case b of None \<Rightarrow> None | Some y \<Rightarrow> Some (x - y)))"

definition fl_mul :: "fl \<Rightarrow> fl \<Rightarrow> fl" where
  "fl_mul a b = (case a of None \<Rightarrow> None | Some x \<Rightarrow> (case b of None \<Rightarrow> None | Some y \<Rightarrow> Some (x * y)))"

section \<open>The order calculator\<close>

text \<open>The nine values returned by \<open>calculate_order\<close>, in the order of the returned tuple.\<close>

record order_result =
  budget_cny :: fl
  copper_budget_cny :: fl
  other_budget_cny :: fl
  copper_quantity_lb :: fl
  copper_quantity_ton :: fl
  transport_cost_cny :: fl
  other_cost_cny :: fl
  total_order_cost_cny :: fl
  budget_status :: fl

text \<open>The tuple of nine NaN returned when a price is missing.\<close>

definition nan_result :: order_result where
  "nan_result = \<lparr>budget_cny = None, copper_budget_cny = None, other_budget_cny = None,
     copper_quantity_lb = None, copper_quantity_ton = None, transport_cost_cny = None,
     other_cost_cny = None, total_order_cost_cny = None, budget_status = None\<rparr>"

text \<open>
  The body of \<open>calculate_order\<close> after the NaN test, where the four prices are numbers.
  The guard on \<open>oil_price_cny\<close> is kept as the source writes it.
\<close>

definition order_body :: "real \<Rightarrow> real \<Rightarrow> real \<Rightarrow> real \<Rightarrow> real \<Rightarrow> real \<Rightarrow> real \<Rightarrow> order_result" where
  "order_body budget_eur copper_pct transport_factor copper_price oil_price eur_cny_price usd_cny_price =
    (let budget = budget_eur * eur_cny_price;
         copper_budget = budget * (copper_pct / 100);
         other_budget = budget * (1 - copper_pct / 100);
         copper_price_cny = copper_price * usd_cny_price;
         oil_price_cny = oil_price * usd_cny_price;
         quantity_lb = (if copper_price_cny \<noteq> 0 then Some (copper_budget / copper_price_cny) else None);
         quantity_ton = (if \<not> isnan quantity_lb then fl_mul quantity_lb (Some 0.000453592) else None);
         transport_cost = (if \<not> isnan (Some oil_price_cny) then oil_price_cny * transport_factor / 100 else 0);
         other_cost = (if other_budget \<ge> transport_cost then other_budget - transport_cost else 0);
         total_order_cost = copper_budget + transport_cost + other_cost;
         status = budget - total_order_cost
     in \<lparr>budget_cny = Some budget, copper_budget_cny = Some copper_budget,
         other_budget_cny = Some other_budget, copper_quantity_lb = quantity_lb,
         copper_quantity_ton = quantity_ton, transport_cost_cny = Some transport_cost,
         other_cost_cny = Some other_cost, total_order_cost_cny = Some total_order_cost,
         budget_status = Some status\<rparr>)"

definition calculate_order :: "real \<Rightarrow> real \<Rightarrow> real \<Rightarrow> fl \<Rightarrow> fl \<Rightarrow> fl \<Rightarrow> fl \<Rightarrow> order_result" where
  "calculate_order budget_eur copper_pct transport_factor copper_price oil_price eur_cny_price usd_cny_price =
    (if list_ex isnan [copper_price, oil_price, eur_cny_price, usd_cny_price] then nan_result
     else order_body budget_eur copper_pct transport_factor
            (the copper_price) (the oil_price) (the eur_cny_price) (the usd_cny_price))"



section \<open>The order calculator in double precision\<close>








section \<open>Sensitivity analysis\<close>

text \<open>
  The six scenarios of the dashboard, in the order of the \<open>variations\<close> dictionary. The
  labels are the source's, with the accent of the oil label dropped.
\<close>

definition variations :: "real \<Rightarrow> real \<Rightarrow> real \<Rightarrow> real \<Rightarrow> (string \<times> real \<times> real \<times> real \<times> real) list" where
  "variations copper_price oil_price eur_cny_price usd_cny_price =
    [(''Cobre +5%'', copper_price * 1.05, oil_price, eur_cny_price, usd_cny_price),
     (''Cobre -5%'', copper_price * 0.95, oil_price, eur_cny_price, usd_cny_price),
     (''Petroleo +5%'', copper_price, oil_price * 1.05, eur_cny_price, usd_cny_price),
     (''Petroleo -5%'', copper_price, oil_price * 0.95, eur_cny_price, usd_cny_price),
     (''EUR/CNY +5%'', copper_price, oil_price, eur_cny_price * 1.05, usd_cny_price),
     (''EUR/CNY -5%'', copper_price, oil_price, eur_cny_price * 0.95, usd_cny_price)]"

text \<open>
  The table of results, label to tonnes of copper. The section runs only when the four
  current prices are numbers; \<open>None\<close> is the skipped section. The section also sits
  inside the part of the dashboard shown for a non-empty historical table, which the
  model takes as given.
\<close>

definition sensitivity_results :: "real \<Rightarrow> real \<Rightarrow> real \<Rightarrow> fl \<Rightarrow> fl \<Rightarrow> fl \<Rightarrow> fl \<Rightarrow> (string \<times> fl) list option" where
  "sensitivity_results budget_eur copper_percentage transport_cost_factor copper_price oil_price eur_cny_price usd_cny_price =
    (if \<not> isnan copper_price \<and> \<not> isnan oil_price \<and> \<not> isnan eur_cny_price \<and> \<not> isnan usd_cny_price
     then Some (map (\<lambda>(label, c_p, o_p, e_c, u_c).
                  (label, copper_quantity_ton (calculate_order budget_eur copper_percentage
                     transport_cost_factor (Some c_p) (Some o_p) (Some e_c) (Some u_c))))
               (variations (the copper_price) (the oil_price) (the eur_cny_price) (the usd_cny_price)))
     else None)"

section \<open>Projected quantities\<close>

text \<open>
  The three calls of \<open>calculate_order\<close> on the projected prices in \<open>update_dashboard\<close>. Each instrument comes
  as the triple (future, future minimum, future maximum); the result is the expected, the
  minimum and the maximum quantity in tonnes.
\<close>

definition projected_quantities :: "real \<Rightarrow> real \<Rightarrow> real \<Rightarrow> fl \<times> fl \<times> fl \<Rightarrow> fl \<times> fl \<times> fl \<Rightarrow> fl \<times> fl \<times> fl \<Rightarrow> fl \<times> fl \<times> fl \<Rightarrow> fl \<times> fl \<times> fl" where
  "projected_quantities budget_eur copper_percentage transport_cost_factor copper oil eur_cny usd_cny =
    (case copper of (copper_future, copper_future_min, copper_future_max) \<Rightarrow>
     case oil of (oil_future, oil_future_min, oil_future_max) \<Rightarrow>
     case eur_cny of (eur_cny_future, eur_cny_future_min, eur_cny_future_max) \<Rightarrow>
     case usd_cny of (usd_cny_future, usd_cny_future_min, usd_cny_future_max) \<Rightarrow>
       (copper_quantity_ton (calculate_order budget_eur copper_percentage transport_cost_factor
           copper_future oil_future eur_cny_future usd_cny_future),
        copper_quantity_ton (calculate_order budget_eur copper_percentage transport_cost_factor
           copper_future_max oil_future_max eur_cny_future_min usd_cny_future_max),
        copper_quantity_ton (calculate_order budget_eur copper_percentage transport_cost_factor
           copper_future_min oil_future_min eur_cny_future_max usd_cny_future_min)))"

section \<open>Library functions used by the indicators\<close>

text \<open>Errors the modelled functions can raise.\<close>

datatype py_error = ValueError | ZeroDivisionError

text \<open>\<open>Series.dropna\<close>, \<open>Series.tail\<close> and \<open>numpy.arange\<close>.\<close>

definition dropna :: "fl list \<Rightarrow> real list" where
  "dropna xs = map the (filter (\<lambda>x. \<not> isnan x) xs)"

definition tail :: "nat \<Rightarrow> 'a list \<Rightarrow> 'a list" where
  "tail n xs = drop (length xs - n) xs"

definition arange :: "nat \<Rightarrow> real list" where
  "arange n = map real [0..<n]"

definition mean :: "real list \<Rightarrow> real" where
  "mean xs = sum_list xs / real (length xs)"

text \<open>
  \<open>Series.std\<close> of pandas: missing values are skipped, the divisor is \<open>n - 1\<close>, and fewer
  than two values give NaN.
\<close>

definition sample_std :: "real list \<Rightarrow> real" where
  "sample_std vs = sqrt (sum_list (map (\<lambda>v. (v - mean vs)\<^sup>2) vs) / real (length vs - 1))"

definition std :: "fl list \<Rightarrow> fl" where
  "std xs = (let vs = dropna xs in if length vs < 2 then None else Some (sample_std vs))"

text \<open>
  The exponentially weighted mean of pandas (\<open>Series.ewm(...).mean()\<close> with
  \<open>ignore_na=False\<close>), as its loop computes it: the running average \<open>weighted\<close>, the
  weight \<open>old_wt\<close> of the past and the number \<open>nobs\<close> of values seen so far. With
  \<open>adjust=True\<close> the new weight is 1 and the old weights add up; with \<open>adjust=False\<close>
  the new weight is \<open>alpha\<close> and the old weight is reset to 1. An output is NaN until
  \<open>min_periods\<close> values have been seen.
\<close>

record ewm_state =
  weighted :: fl
  old_wt :: real
  nobs :: nat

definition ewm_step :: "real \<Rightarrow> bool \<Rightarrow> ewm_state \<Rightarrow> fl \<Rightarrow> ewm_state" where
  "ewm_step alpha adjust s cur =
    (let old_wt_factor = 1 - alpha;
         new_wt = (if adjust then 1 else alpha);
         n = nobs s + (if isnan cur then 0 else 1)
     in case weighted s of
          Some w \<Rightarrow>
            (let ow = old_wt s * old_wt_factor
             in case cur of
                  Some c \<Rightarrow>
                    \<lparr>weighted = Some (if w \<noteq> c then (ow * w + new_wt * c) / (ow + new_wt) else w),
                     old_wt = (if adjust then ow + new_wt else 1), nobs = n\<rparr>
                | None \<Rightarrow> \<lparr>weighted = Some w, old_wt = ow, nobs = n\<rparr>)
        | None \<Rightarrow> \<lparr>weighted = cur, old_wt = old_wt s, nobs = n\<rparr>)"

definition ewm_out :: "nat \<Rightarrow> ewm_state \<Rightarrow> fl" where
  "ewm_out minp s = (if nobs s \<ge> minp then weighted s else None)"

fun ewm_loop :: "real \<Rightarrow> bool \<Rightarrow> nat \<Rightarrow> ewm_state \<Rightarrow> fl list \<Rightarrow> fl list" where
  "ewm_loop alpha adjust minp s [] = []"
| "ewm_loop alpha adjust minp s (cur # rest) =
     ewm_out minp (ewm_step alpha adjust s cur) # ewm_loop alpha adjust minp (ewm_step alpha adjust s cur) rest"

definition ewm_mean :: "real \<Rightarrow> bool \<Rightarrow> nat \<Rightarrow> fl list \<Rightarrow> fl list" where
  "ewm_mean alpha adjust min_periods vals =
    (case vals of
       [] \<Rightarrow> []
     | v # rest \<Rightarrow>
         (let minp = max min_periods 1;
              s = \<lparr>weighted = v, old_wt = 1, nobs = (if isnan v then 0 else 1)\<rparr>
          in ewm_out minp s # ewm_loop alpha adjust minp s rest))"

text \<open>
  The slope of \<open>scipy.stats.linregress\<close>: the covariance of \<open>x\<close> and \<open>y\<close> over the
  variance of \<open>x\<close>. Empty input and an \<open>x\<close> of several identical values raise
  \<open>ValueError\<close>; a NaN among the \<open>y\<close> makes the slope NaN; a single point divides zero
  by zero, which is NaN.
\<close>

definition linregress_slope :: "real list \<Rightarrow> fl list \<Rightarrow> py_error + fl" where
  "linregress_slope x y =
    (if x = [] \<or> y = [] then Inl ValueError
     else if length x > 1 \<and> list_all (\<lambda>a. a = hd x) x then Inl ValueError
     else if list_ex isnan y then Inr None
     else (let ys = map the y;
               n = real (length x);
               xmean = mean x;
               ymean = mean ys;
               ssxm = sum_list (map (\<lambda>a. (a - xmean) * (a - xmean)) x) / n;
               ssxym = sum_list (map2 (\<lambda>a b. (a - xmean) * (b - ymean)) x ys) / n
           in if ssxm = 0 then Inr None else Inr (Some (ssxym / ssxm))))"

section \<open>The indicators\<close>

text \<open>
  A frame of one instrument is the list of its Close values, one per row, NaN where the
  close is missing. Periods and spans are natural numbers.
\<close>

definition calculate_trend :: "fl list \<Rightarrow> nat \<Rightarrow> py_error + (fl \<times> string)" where
  "calculate_trend historical_data period =
    (if historical_data = [] \<or> length historical_data < period then Inr (None, ''Indeterminada'')
     else (let last_period = tail period historical_data;
               x = arange (length last_period)
           in case linregress_slope x last_period of
                Inl err \<Rightarrow> Inl err
              | Inr slope \<Rightarrow>
                  Inr (slope, if (case slope of Some v \<Rightarrow> v > 0 | None \<Rightarrow> False)
                              then ''Alcista'' else ''Bajista'')))"

text \<open>
  Floats with the two infinities, for the quotient in the RSI, which divides by an average
  that may be zero. The sign of a zero is not modelled: a zero divisor counts as positive.
  In IEEE arithmetic the sign of the zero decides the sign of the infinite quotient only;
  100 divided by either infinity is a zero, so the RSI is 100 in both cases.
\<close>

datatype xfl = XNaN | PInf | NInf | Fin real

definition of_fl :: "fl \<Rightarrow> xfl" where
  "of_fl x = (case x of None \<Rightarrow> XNaN | Some v \<Rightarrow> Fin v)"

fun x_add :: "xfl \<Rightarrow> xfl \<Rightarrow> xfl" where
  "x_add XNaN _ = XNaN"
| "x_add _ XNaN = XNaN"
| "x_add (Fin a) (Fin b) = Fin (a + b)"
| "x_add PInf NInf = XNaN"
| "x_add NInf PInf = XNaN"
| "x_add PInf _ = PInf"
| "x_add _ PInf = PInf"
| "x_add NInf _ = NInf"
| "x_add _ NInf = NInf"

fun x_neg :: "xfl \<Rightarrow> xfl" where
  "x_neg XNaN = XNaN"
| "x_neg PInf = NInf"
| "x_neg NInf = PInf"
| "x_neg (Fin a) = Fin (- a)"

definition x_sub :: "xfl \<Rightarrow> xfl \<Rightarrow> xfl" where
  "x_sub a b = x_add a (x_neg b)"

fun x_div :: "xfl \<Rightarrow> xfl \<Rightarrow> xfl" where
  "x_div XNaN _ = XNaN"
| "x_div _ XNaN = XNaN"
| "x_div (Fin a) (Fin b) =
     (if b \<noteq> 0 then Fin (a / b) else if a = 0 then XNaN else if a > 0 then PInf else NInf)"
| "x_div (Fin a) _ = Fin 0"
| "x_div PInf (Fin b) = (if b \<ge> 0 then PInf else NInf)"
| "x_div NInf (Fin b) = (if b \<ge> 0 then NInf else PInf)"
| "x_div _ _ = XNaN"

text \<open>\<open>Series.diff\<close>, \<open>clip(lower=0)\<close> and the negated \<open>clip(upper=0)\<close>.\<close>

definition diff :: "fl list \<Rightarrow> fl list" where
  "diff xs = (case xs of [] \<Rightarrow> [] | _ # rest \<Rightarrow> None # map2 (\<lambda>prev cur. fl_sub cur prev) xs rest)"

definition gain_of :: "fl list \<Rightarrow> fl list" where
  "gain_of delta = map (map_option (\<lambda>d. max d 0)) delta"

definition loss_of :: "fl list \<Rightarrow> fl list" where
  "loss_of delta = map (map_option (\<lambda>d. - min d 0)) delta"

definition avg_gain_of :: "fl list \<Rightarrow> nat \<Rightarrow> fl list" where
  "avg_gain_of close period = ewm_mean (1 / real period) True period (gain_of (diff close))"

definition avg_loss_of :: "fl list \<Rightarrow> nat \<Rightarrow> fl list" where
  "avg_loss_of close period = ewm_mean (1 / real period) True period (loss_of (diff close))"

definition calculate_rsi :: "fl list \<Rightarrow> nat \<Rightarrow> py_error + xfl" where
  "calculate_rsi historical_data period =
    (if historical_data = [] \<or> length historical_data < period + 1 then Inr XNaN
     else if period = 0 then Inl ZeroDivisionError
     else (let avg_gain = avg_gain_of historical_data period;
               avg_loss = avg_loss_of historical_data period;
               rs = map2 (\<lambda>g l. x_div (of_fl g) (of_fl l)) avg_gain avg_loss;
               rsi = map (\<lambda>r. x_sub (Fin 100) (x_div (Fin 100) (x_add (Fin 1) r))) rs
           in Inr (last rsi)))"

section \<open>The projection\<close>

text \<open>
  \<open>project_future_price\<close>. A span below 1 makes \<open>ewm\<close> raise; the function catches
  every exception and returns three NaN.
\<close>

definition project_future_price :: "fl list \<Rightarrow> nat \<Rightarrow> fl \<times> fl \<times> fl" where
  "project_future_price historical_data span_n =
    (if historical_data = [] then (None, None, None)
     else (let close_data = dropna historical_data
           in if length close_data < 2 then (None, None, None)
              else (let tail_len = min span_n (length close_data)
                    in if tail_len < 1 then (None, None, None)
                       else (let ema_series = dropna (ewm_mean (2 / (real tail_len + 1)) False 0
                                                        (map Some close_data))
                             in if ema_series = [] then (None, None, None)
                                else (let ema_value = Some (last ema_series);
                                          std_value = std (map Some (tail tail_len close_data))
                                      in if isnan ema_value then (None, None, None)
                                         else (ema_value, fl_sub ema_value std_value,
                                               fl_add ema_value std_value))))))"

text \<open>
  The projection of one instrument in \<open>update_dashboard\<close>: \<open>hist\<close> is the instrument's
  frame, \<open>column\<close> its column in the merged historical table, \<open>price\<close> the current price
  used when no average is available.
\<close>

definition project_instrument :: "fl list \<Rightarrow> fl list \<Rightarrow> fl \<Rightarrow> nat \<Rightarrow> nat \<Rightarrow> py_error + (fl \<times> fl \<times> fl)" where
  "project_instrument hist column price span_n days_ahead =
    (case project_future_price hist span_n of
       (ema, ema_min, ema_max) \<Rightarrow>
         if \<not> isnan ema then
           (case calculate_trend hist span_n of
              Inl err \<Rightarrow> Inl err
            | Inr (slope, label) \<Rightarrow>
                (let drift = map_option (\<lambda>sd. sd * sqrt (real days_ahead) / sqrt 252) (std column);
                     move = fl_mul slope (Some (real days_ahead))
                 in Inr (fl_add ema move,
                         fl_sub (fl_add ema_min move) drift,
                         fl_add (fl_add ema_max move) drift)))
         else Inr (price, price, price))"

text \<open>
  The projection section of \<open>update_dashboard\<close> as a whole, shown when the historical
  table is not empty: the four instruments are projected with span 30 over 80 days, and the
  three quantities are computed from the projected prices.
\<close>

definition projection_4_months ::
  "real \<Rightarrow> real \<Rightarrow> real \<Rightarrow> fl list \<Rightarrow> fl list \<Rightarrow> fl list \<Rightarrow> fl list \<Rightarrow>
   fl list \<Rightarrow> fl list \<Rightarrow> fl list \<Rightarrow> fl list \<Rightarrow> fl \<Rightarrow> fl \<Rightarrow> fl \<Rightarrow> fl \<Rightarrow> py_error + (fl \<times> fl \<times> fl)" where
  "projection_4_months budget_eur copper_percentage transport_cost_factor
       copper_hist oil_hist eur_cny_hist usd_cny_hist
       copper_column oil_column eur_cny_column usd_cny_column
       copper_price oil_price eur_cny_price usd_cny_price =
    (let span_n = 30; days_ahead = 80
     in case project_instrument copper_hist copper_column copper_price span_n days_ahead of
          Inl err \<Rightarrow> Inl err
        | Inr copper \<Rightarrow>
     (case project_instrument oil_hist oil_column oil_price span_n days_ahead of
          Inl err \<Rightarrow> Inl err
        | Inr oil \<Rightarrow>
     (case project_instrument eur_cny_hist eur_cny_column eur_cny_price span_n days_ahead of
          Inl err \<Rightarrow> Inl err
        | Inr eur_cny \<Rightarrow>
     (case project_instrument usd_cny_hist usd_cny_column usd_cny_price span_n days_ahead of
          Inl err \<Rightarrow> Inl err
        | Inr usd_cny \<Rightarrow>
            Inr (projected_quantities budget_eur copper_percentage transport_cost_factor
                   copper oil eur_cny usd_cny)))))"

section \<open>Notions used to state the properties\<close>

text \<open>
  The sum of squared residuals of the line \<open>a + b * i\<close> against the values \<open>ys\<close> at the
  indices \<open>0, 1, ...\<close>: what an ordinary least squares fit minimises.
\<close>

definition sse :: "real list \<Rightarrow> real \<Rightarrow> real \<Rightarrow> real" where
  "sse ys a b = (\<Sum>i<length ys. (ys ! i - (a + b * real i))\<^sup>2)"

text \<open>The successive differences of a series of numbers.\<close>

definition deltas :: "real list \<Rightarrow> real list" where
  "deltas xs = map2 (\<lambda>prev cur. cur - prev) xs (tl xs)"

text \<open>
  The last value of the exponential moving average with smoothing \<open>alpha\<close>, by its
  recurrence: the average starts at the first value, and each further value \<open>v\<close> moves the
  average \<open>y\<close> to \<open>(1 - alpha) * y + alpha * v\<close>.
\<close>

definition ema_last :: "real \<Rightarrow> real list \<Rightarrow> real" where
  "ema_last alpha xs = foldl (\<lambda>y v. (1 - alpha) * y + alpha * v) (hd xs) (tl xs)"

text \<open>
  The projection as the specification words it, for a series of available closes and a given
  slope: the moving average runs over the last \<open>tail\<close> closes only, and the drift is the
  spread of those closes scaled by the square root of the horizon in trading years. The
  result is the triple expected, lower, upper.
\<close>

definition spec_project :: "real list \<Rightarrow> nat \<Rightarrow> nat \<Rightarrow> real \<Rightarrow> real \<times> real \<times> real" where
  "spec_project closes span_n horizon_days slope =
    (let tail_len = min span_n (length closes);
         expected_now = ema_last (2 / (real tail_len + 1)) (tail tail_len closes);
         spread_now = sample_std (tail tail_len closes);
         drift = spread_now * sqrt (real horizon_days / 252)
     in (expected_now + slope * real horizon_days,
         expected_now - spread_now + slope * real horizon_days - drift,
         expected_now + spread_now + slope * real horizon_days + drift))"

text \<open>
  A frame of 60 available closes: 30 closes at \<open>h\<close>, then 30 closes that start at \<open>c\<close>
  and rise by \<open>d\<close> a day.
\<close>

definition ramp_frame :: "real \<Rightarrow> real \<Rightarrow> real \<Rightarrow> real list" where
  "ramp_frame h c d = replicate 30 h @ map (\<lambda>i. c + d * real i) [0..<30]"

text \<open>
  The projected quantities are numbers and the maximum quantity lies strictly below the
  expected one.
\<close>

definition max_below_expected :: "py_error + (fl \<times> fl \<times> fl) \<Rightarrow> bool" where
  "max_below_expected r =
    (case r of
       Inr (Some qe, Some qmin, Some qmax) \<Rightarrow> qmax < qe
     | _ \<Rightarrow> False)"

text \<open>
  A projected price triple (expected, lower, upper) that consists of three numbers, and one
  whose lower bound is moreover positive.
\<close>

definition projection_numeric :: "py_error + (fl \<times> fl \<times> fl) \<Rightarrow> bool" where
  "projection_numeric r =
    (case r of
       Inr (Some e, Some lo, Some hi) \<Rightarrow> True
     | _ \<Rightarrow> False)"

definition lower_bound_positive :: "py_error + (fl \<times> fl \<times> fl) \<Rightarrow> bool" where
  "lower_bound_positive r =
    (case r of
       Inr (Some e, Some lo, Some hi) \<Rightarrow> 0 < lo
     | _ \<Rightarrow> False)"

text \<open>
  The projected quantities (expected, minimum, maximum) are numbers in the order
  minimum, expected, maximum.
\<close>

definition quantities_ordered :: "py_error + (fl \<times> fl \<times> fl) \<Rightarrow> bool" where
  "quantities_ordered r =
    (case r of
       Inr (Some qe, Some qmin, Some qmax) \<Rightarrow> qmin \<le> qe \<and> qe \<le> qmax
     | _ \<Rightarrow> False)"

section \<open>Predicates on results\<close>

text \<open>The seven budget and cost fields of a result are numbers.\<close>

definition costs_computed :: "order_result \<Rightarrow> bool" where
  "costs_computed r = (\<not> isnan (budget_cny r) \<and> \<not> isnan (copper_budget_cny r) \<and>
     \<not> isnan (other_budget_cny r) \<and> \<not> isnan (transport_cost_cny r) \<and>
     \<not> isnan (other_cost_cny r) \<and> \<not> isnan (total_order_cost_cny r) \<and>
     \<not> isnan (budget_status r))"

text \<open>The two quantity fields of a result are numbers, respectively NaN.\<close>

definition quantities_computed :: "order_result \<Rightarrow> bool" where
  "quantities_computed r = (\<not> isnan (copper_quantity_lb r) \<and> \<not> isnan (copper_quantity_ton r))"

definition quantities_nan :: "order_result \<Rightarrow> bool" where
  "quantities_nan r = (isnan (copper_quantity_lb r) \<and> isnan (copper_quantity_ton r))"

text \<open>A float that is NaN or a non-negative number.\<close>

definition nonneg_or_nan :: "fl \<Rightarrow> bool" where
  "nonneg_or_nan x = (case x of None \<Rightarrow> True | Some v \<Rightarrow> 0 \<le> v)"

section \<open>Properties of the order calculator\<close>

lemma calculate_order_nan:
  "isnan copper_price \<or> isnan oil_price \<or> isnan eur_cny_price \<or> isnan usd_cny_price \<Longrightarrow>
   calculate_order b p t copper_price oil_price eur_cny_price usd_cny_price = nan_result"
  by (auto simp: calculate_order_def)

lemma calculate_order_Some:
  "calculate_order b p t (Some c) (Some oil) (Some e) (Some u) = order_body b p t c oil e u"
  by (simp add: calculate_order_def isnan_def)

lemma order_body_costs:
  "budget_cny (order_body b p t c oil e u) = Some (b * e)"
  "copper_budget_cny (order_body b p t c oil e u) = Some (b * e * (p / 100))"
  "other_budget_cny (order_body b p t c oil e u) = Some (b * e * (1 - p / 100))"
  "transport_cost_cny (order_body b p t c oil e u) = Some (oil * u * t / 100)"
  "other_cost_cny (order_body b p t c oil e u) =
     Some (if b * e * (1 - p / 100) \<ge> oil * u * t / 100
           then b * e * (1 - p / 100) - oil * u * t / 100 else 0)"
  "total_order_cost_cny (order_body b p t c oil e u) =
     Some (b * e * (p / 100) + oil * u * t / 100 +
       (if b * e * (1 - p / 100) \<ge> oil * u * t / 100
        then b * e * (1 - p / 100) - oil * u * t / 100 else 0))"
  "budget_status (order_body b p t c oil e u) =
     Some (b * e - (b * e * (p / 100) + oil * u * t / 100 +
       (if b * e * (1 - p / 100) \<ge> oil * u * t / 100
        then b * e * (1 - p / 100) - oil * u * t / 100 else 0)))"
  by (simp_all add: order_body_def Let_def isnan_def)

lemma order_body_quantities:
  "copper_quantity_lb (order_body b p t c oil e u) =
     (if c * u \<noteq> 0 then Some (b * e * (p / 100) / (c * u)) else None)"
  "copper_quantity_ton (order_body b p t c oil e u) =
     (if c * u \<noteq> 0 then Some (b * e * (p / 100) / (c * u) * 0.000453592) else None)"
  by (simp_all add: order_body_def Let_def isnan_def fl_mul_def)

lemma sensitivity_results_Some:
  "sensitivity_results b p t (Some c) (Some oil) (Some e) (Some u) =
    Some [(''Cobre +5%'', copper_quantity_ton (order_body b p t (c * 1.05) oil e u)),
          (''Cobre -5%'', copper_quantity_ton (order_body b p t (c * 0.95) oil e u)),
          (''Petroleo +5%'', copper_quantity_ton (order_body b p t c (oil * 1.05) e u)),
          (''Petroleo -5%'', copper_quantity_ton (order_body b p t c (oil * 0.95) e u)),
          (''EUR/CNY +5%'', copper_quantity_ton (order_body b p t c oil (e * 1.05) u)),
          (''EUR/CNY -5%'', copper_quantity_ton (order_body b p t c oil (e * 0.95) u))]"
  by (simp add: sensitivity_results_def variations_def isnan_def calculate_order_Some)

lemma quantity_ton_strict_mono:
  fixes k :: real
  assumes "0 < k" "0 < c" "c < c'" "0 < u"
  shows "k / (c' * u) * 0.000453592 < k / (c * u) * 0.000453592"
proof -
  have "c * u < c' * u" using assms by simp
  moreover have "0 < c * u" using assms by simp
  ultimately have "k / (c' * u) < k / (c * u)"
    using assms(1) by (simp add: frac_less2)
  then show ?thesis by simp
qed

lemma quantity_ton_mono:
  fixes b :: real
  assumes "0 \<le> b" "0 \<le> p" "0 < e" "e \<le> e'" "0 < c" "c \<le> c'" "0 < u" "u \<le> u'"
  shows "b * e * (p / 100) / (c' * u') * 0.000453592 \<le> b * e' * (p / 100) / (c * u) * 0.000453592"
proof -
  have num: "b * e * (p / 100) \<le> b * e' * (p / 100)"
    using assms by (simp add: mult_left_mono mult_right_mono)
  have num0: "0 \<le> b * e' * (p / 100)" using assms by simp
  have den: "c * u \<le> c' * u'" using assms by (simp add: mult_mono)
  have den0: "0 < c * u" using assms by simp
  have "b * e * (p / 100) / (c' * u') \<le> b * e' * (p / 100) / (c * u)"
    by (rule frac_le [OF num0 num den0 den])
  then show ?thesis by simp
qed

lemma projected_quantities_mono:
  assumes "0 \<le> b" "0 \<le> p"
    and "0 < cmin" "cmin \<le> cf" "cf \<le> cmax"
    and "0 < emin" "emin \<le> ef" "ef \<le> emax"
    and "0 < umin" "umin \<le> uf" "uf \<le> umax"
  shows "\<exists>qe qmin qmax.
    projected_quantities b p t (Some cf, Some cmin, Some cmax) (Some oilf, Some oilmin, Some oilmax)
        (Some ef, Some emin, Some emax) (Some uf, Some umin, Some umax) = (Some qe, Some qmin, Some qmax) \<and>
    Some qe = copper_quantity_ton (calculate_order b p t (Some cf) (Some oilf) (Some ef) (Some uf)) \<and>
    Some qmin = copper_quantity_ton (calculate_order b p t (Some cmax) (Some oilmax) (Some emin) (Some umax)) \<and>
    Some qmax = copper_quantity_ton (calculate_order b p t (Some cmin) (Some oilmin) (Some emax) (Some umin)) \<and>
    qmin \<le> qe \<and> qe \<le> qmax"
proof -
  let ?qe = "b * ef * (p / 100) / (cf * uf) * 0.000453592"
  let ?qmin = "b * emin * (p / 100) / (cmax * umax) * 0.000453592"
  let ?qmax = "b * emax * (p / 100) / (cmin * umin) * 0.000453592"
  have pos: "0 < cf" "0 < cmax" "0 < uf" "0 < umax" "0 < ef" using assms by simp_all
  have nz: "cf * uf \<noteq> 0" "cmax * umax \<noteq> 0" "cmin * umin \<noteq> 0" using assms pos by simp_all
  have e: "copper_quantity_ton (calculate_order b p t (Some cf) (Some oilf) (Some ef) (Some uf)) = Some ?qe"
    unfolding calculate_order_Some order_body_quantities using nz by simp
  have lo: "copper_quantity_ton (calculate_order b p t (Some cmax) (Some oilmax) (Some emin) (Some umax)) = Some ?qmin"
    unfolding calculate_order_Some order_body_quantities using nz by simp
  have hi: "copper_quantity_ton (calculate_order b p t (Some cmin) (Some oilmin) (Some emax) (Some umin)) = Some ?qmax"
    unfolding calculate_order_Some order_body_quantities using nz by simp
  have pq: "projected_quantities b p t (Some cf, Some cmin, Some cmax) (Some oilf, Some oilmin, Some oilmax)
        (Some ef, Some emin, Some emax) (Some uf, Some umin, Some umax) = (Some ?qe, Some ?qmin, Some ?qmax)"
    by (simp add: projected_quantities_def e lo hi)
  have le1: "?qmin \<le> ?qe"
    by (rule quantity_ton_mono) (use assms pos in simp_all)
  have le2: "?qe \<le> ?qmax"
    by (rule quantity_ton_mono) (use assms pos in simp_all)
  from pq e lo hi le1 le2 show ?thesis by metis
qed

subsection \<open>C1: missing prices and a zero price\<close>

text \<open>
  C1 as stated fails. With a copper price of zero the product of copper price and USD/CNY
  rate is zero; the result then carries the budget and every cost as numbers and only the two
  quantities as NaN, so it is neither the tuple of nine NaN nor fully computed.
\<close>

theorem calculate_order_zero_price_partial:
  "budget_cny (calculate_order 100000 50 1 (Some 0) (Some 80) (Some 7.8) (Some 7.2)) = Some 780000
   \<and> transport_cost_cny (calculate_order 100000 50 1 (Some 0) (Some 80) (Some 7.8) (Some 7.2)) = Some 5.76
   \<and> copper_quantity_lb (calculate_order 100000 50 1 (Some 0) (Some 80) (Some 7.8) (Some 7.2)) = None
   \<and> calculate_order 100000 50 1 (Some 0) (Some 80) (Some 7.8) (Some 7.2) \<noteq> nan_result"
  by (simp add: calculate_order_def order_body_def isnan_def nan_result_def fl_mul_def Let_def)

text \<open>
  C1, amended: if one of the four prices is NaN the result is the tuple of nine NaN. If the
  four prices are numbers, the budget and the costs are always numbers; the two copper
  quantities are NaN when copper price times USD/CNY rate is zero, and numbers otherwise.
\<close>

theorem calculate_order_availability:
  "(isnan copper_price \<or> isnan oil_price \<or> isnan eur_cny_price \<or> isnan usd_cny_price \<longrightarrow>
      calculate_order b p t copper_price oil_price eur_cny_price usd_cny_price = nan_result) \<and>
   (c * u = 0 \<longrightarrow>
      costs_computed (calculate_order b p t (Some c) (Some oil) (Some e) (Some u)) \<and>
      quantities_nan (calculate_order b p t (Some c) (Some oil) (Some e) (Some u))) \<and>
   (c * u \<noteq> 0 \<longrightarrow>
      costs_computed (calculate_order b p t (Some c) (Some oil) (Some e) (Some u)) \<and>
      quantities_computed (calculate_order b p t (Some c) (Some oil) (Some e) (Some u)))"
  by (auto simp: calculate_order_nan calculate_order_Some order_body_def isnan_def Let_def fl_mul_def
        costs_computed_def quantities_nan_def quantities_computed_def)

theorem calculate_order_availability_witness:
  "isnan None \<and> (0::real) * 7.2 = 0 \<and> (4.5::real) * 7.2 \<noteq> 0 \<and>
   calculate_order 100000 50 1 None (Some 80) (Some 7.8) (Some 7.2) = nan_result \<and>
   costs_computed (calculate_order 100000 50 1 (Some 0) (Some 80) (Some 7.8) (Some 7.2)) \<and>
   quantities_nan (calculate_order 100000 50 1 (Some 0) (Some 80) (Some 7.8) (Some 7.2)) \<and>
   costs_computed (calculate_order 100000 50 1 (Some 4.5) (Some 80) (Some 7.8) (Some 7.2)) \<and>
   quantities_computed (calculate_order 100000 50 1 (Some 4.5) (Some 80) (Some 7.8) (Some 7.2))"
  using calculate_order_availability [where copper_price = None and oil_price = "Some 80"
      and eur_cny_price = "Some 7.8" and usd_cny_price = "Some 7.2" and b = 100000 and p = 50
      and t = 1 and c = 0 and u = "7.2" and oil = 80 and e = "7.8"]
    calculate_order_availability [where copper_price = None and oil_price = "Some 80"
      and eur_cny_price = "Some 7.8" and usd_cny_price = "Some 7.2" and b = 100000 and p = 50
      and t = 1 and c = "4.5" and u = "7.2" and oil = 80 and e = "7.8"]
  by (simp add: isnan_def)

subsection \<open>C2: the budget identities\<close>

text \<open>
  C2: when the four prices are numbers and copper price times USD/CNY rate is not zero, the
  copper budget and the other budget add up to the budget in CNY, the total cost is the sum
  of copper budget, transport cost and other cost, and the budget status is the budget minus
  the total cost.
\<close>

theorem calculate_order_budget_identities:
  assumes "c * u \<noteq> 0"
  shows "\<exists>B CB OB TC OC TOT ST.
     budget_cny (calculate_order b p t (Some c) (Some oil) (Some e) (Some u)) = Some B \<and>
     copper_budget_cny (calculate_order b p t (Some c) (Some oil) (Some e) (Some u)) = Some CB \<and>
     other_budget_cny (calculate_order b p t (Some c) (Some oil) (Some e) (Some u)) = Some OB \<and>
     transport_cost_cny (calculate_order b p t (Some c) (Some oil) (Some e) (Some u)) = Some TC \<and>
     other_cost_cny (calculate_order b p t (Some c) (Some oil) (Some e) (Some u)) = Some OC \<and>
     total_order_cost_cny (calculate_order b p t (Some c) (Some oil) (Some e) (Some u)) = Some TOT \<and>
     budget_status (calculate_order b p t (Some c) (Some oil) (Some e) (Some u)) = Some ST \<and>
     CB + OB = B \<and> TOT = CB + TC + OC \<and> ST = B - TOT"
  unfolding calculate_order_Some order_body_costs
  by ((rule exI conjI refl)+) (simp_all add: algebra_simps)

theorem calculate_order_budget_identities_witness:
  "(4.5::real) * 7.2 \<noteq> 0 \<and>
   budget_cny (calculate_order 100000 50 1 (Some 4.5) (Some 80) (Some 7.8) (Some 7.2)) = Some 780000 \<and>
   copper_budget_cny (calculate_order 100000 50 1 (Some 4.5) (Some 80) (Some 7.8) (Some 7.2)) = Some 390000 \<and>
   other_budget_cny (calculate_order 100000 50 1 (Some 4.5) (Some 80) (Some 7.8) (Some 7.2)) = Some 390000 \<and>
   transport_cost_cny (calculate_order 100000 50 1 (Some 4.5) (Some 80) (Some 7.8) (Some 7.2)) = Some 5.76 \<and>
   other_cost_cny (calculate_order 100000 50 1 (Some 4.5) (Some 80) (Some 7.8) (Some 7.2)) = Some 389994.24 \<and>
   total_order_cost_cny (calculate_order 100000 50 1 (Some 4.5) (Some 80) (Some 7.8) (Some 7.2)) = Some 780000 \<and>
   budget_status (calculate_order 100000 50 1 (Some 4.5) (Some 80) (Some 7.8) (Some 7.2)) = Some 0"
  using calculate_order_budget_identities [where c = "4.5" and u = "7.2" and b = 100000 and p = 50
      and t = 1 and oil = 80 and e = "7.8"]
  by (simp add: calculate_order_Some order_body_costs)

subsection \<open>C5: signs of quantities and costs\<close>

text \<open>
  C5 as stated fails: prices are not restricted to non-negative numbers, and with a negative
  oil price (WTI closed at -37.63 on 20 April 2020) the fully computed result has a negative
  transport cost.
\<close>

theorem calculate_order_negative_oil_cost:
  "transport_cost_cny (calculate_order 100000 50 1 (Some 4.5) (Some (-37.63)) (Some 7.8) (Some 7.2))
     = Some (-2.70936) \<and>
   costs_computed (calculate_order 100000 50 1 (Some 4.5) (Some (-37.63)) (Some 7.8) (Some 7.2)) \<and>
   quantities_computed (calculate_order 100000 50 1 (Some 4.5) (Some (-37.63)) (Some 7.8) (Some 7.2))"
  by (simp add: calculate_order_Some order_body_costs order_body_quantities costs_computed_def
        quantities_computed_def isnan_def)

text \<open>
  C5, amended: for a non-negative budget, copper percentage and transport factor and four
  prices that are each NaN or non-negative, the two quantities, the transport cost, the other
  cost and the total cost of the result are each NaN or non-negative.
\<close>

theorem calculate_order_nonneg:
  assumes "0 \<le> b" "0 \<le> p" "0 \<le> t"
    and "nonneg_or_nan copper_price" "nonneg_or_nan oil_price"
    and "nonneg_or_nan eur_cny_price" "nonneg_or_nan usd_cny_price"
  shows "nonneg_or_nan (copper_quantity_lb (calculate_order b p t copper_price oil_price eur_cny_price usd_cny_price)) \<and>
         nonneg_or_nan (copper_quantity_ton (calculate_order b p t copper_price oil_price eur_cny_price usd_cny_price)) \<and>
         nonneg_or_nan (transport_cost_cny (calculate_order b p t copper_price oil_price eur_cny_price usd_cny_price)) \<and>
         nonneg_or_nan (other_cost_cny (calculate_order b p t copper_price oil_price eur_cny_price usd_cny_price)) \<and>
         nonneg_or_nan (total_order_cost_cny (calculate_order b p t copper_price oil_price eur_cny_price usd_cny_price))"
proof (cases "isnan copper_price \<or> isnan oil_price \<or> isnan eur_cny_price \<or> isnan usd_cny_price")
  case True
  then show ?thesis
    by (simp add: calculate_order_nan nan_result_def nonneg_or_nan_def)
next
  case False
  then obtain c oil e u where eqs: "copper_price = Some c" "oil_price = Some oil"
      "eur_cny_price = Some e" "usd_cny_price = Some u"
    by (auto simp: isnan_def)
  with assms have pos: "0 \<le> c" "0 \<le> oil" "0 \<le> e" "0 \<le> u"
    by (simp_all add: nonneg_or_nan_def)
  have cb: "0 \<le> b * e * (p / 100)"
    using assms(1,2) pos by simp
  have tc: "0 \<le> oil * u * t / 100"
    using assms(3) pos by simp
  have q: "0 \<le> b * e * (p / 100) / (c * u)"
    using cb pos by simp
  show ?thesis
    unfolding eqs calculate_order_Some order_body_costs order_body_quantities
    using cb tc q by (simp add: nonneg_or_nan_def)
qed

theorem calculate_order_nonneg_witness:
  "(0::real) \<le> 100000 \<and> (0::real) \<le> 50 \<and> (0::real) \<le> 1 \<and>
   nonneg_or_nan (Some 4.5) \<and> nonneg_or_nan (Some 80) \<and> nonneg_or_nan (Some 7.8) \<and>
   nonneg_or_nan (Some 7.2) \<and>
   copper_quantity_lb (calculate_order 100000 50 1 (Some 4.5) (Some 80) (Some 7.8) (Some 7.2))
     = Some (390000 / 32.4) \<and>
   nonneg_or_nan (copper_quantity_lb (calculate_order 100000 50 1 (Some 4.5) (Some 80) (Some 7.8) (Some 7.2))) \<and>
   nonneg_or_nan (copper_quantity_ton (calculate_order 100000 50 1 (Some 4.5) (Some 80) (Some 7.8) (Some 7.2))) \<and>
   nonneg_or_nan (transport_cost_cny (calculate_order 100000 50 1 (Some 4.5) (Some 80) (Some 7.8) (Some 7.2))) \<and>
   nonneg_or_nan (other_cost_cny (calculate_order 100000 50 1 (Some 4.5) (Some 80) (Some 7.8) (Some 7.2))) \<and>
   nonneg_or_nan (total_order_cost_cny (calculate_order 100000 50 1 (Some 4.5) (Some 80) (Some 7.8) (Some 7.2)))"
  using calculate_order_nonneg [where b = 100000 and p = 50 and t = 1 and copper_price = "Some 4.5"
      and oil_price = "Some 80" and eur_cny_price = "Some 7.8" and usd_cny_price = "Some 7.2"]
  by (simp add: nonneg_or_nan_def calculate_order_Some order_body_quantities)

subsection \<open>C8: copper price scenarios\<close>

text \<open>
  C8 as stated fails: the copper percentage may be zero (the slider starts at 0), and then
  the baseline and all six scenarios give a quantity of zero, so the copper +5% scenario is
  not strictly below the baseline, nor the -5% scenario strictly above.
\<close>

theorem sensitivity_zero_share_flat:
  "copper_quantity_ton (calculate_order 100000 0 1 (Some 4.5) (Some 80) (Some 7.8) (Some 7.2)) = Some 0 \<and>
   sensitivity_results 100000 0 1 (Some 4.5) (Some 80) (Some 7.8) (Some 7.2) =
     Some [(''Cobre +5%'', Some 0), (''Cobre -5%'', Some 0), (''Petroleo +5%'', Some 0),
           (''Petroleo -5%'', Some 0), (''EUR/CNY +5%'', Some 0), (''EUR/CNY -5%'', Some 0)]"
  by (simp add: sensitivity_results_Some calculate_order_Some order_body_quantities)

text \<open>
  C8, amended: for a positive budget, a positive copper percentage and positive copper,
  EUR/CNY and USD/CNY prices (any oil price), the copper +5% scenario records a strictly
  lower quantity than the baseline call and the copper -5% scenario a strictly higher one.
\<close>

theorem sensitivity_copper_strict:
  assumes "0 < b" "0 < p" "0 < c" "0 < e" "0 < u"
  shows "\<exists>rs q0 q1 q2.
    sensitivity_results b p t (Some c) (Some oil) (Some e) (Some u) = Some rs \<and>
    copper_quantity_ton (calculate_order b p t (Some c) (Some oil) (Some e) (Some u)) = Some q0 \<and>
    map_of rs ''Cobre +5%'' = Some (Some q1) \<and>
    map_of rs ''Cobre -5%'' = Some (Some q2) \<and>
    q1 < q0 \<and> q0 < q2"
proof -
  let ?k = "b * e * (p / 100)"
  let ?q0 = "?k / (c * u) * 0.000453592"
  let ?q1 = "?k / (c * 1.05 * u) * 0.000453592"
  let ?q2 = "?k / (c * 0.95 * u) * 0.000453592"
  let ?rs = "[(''Cobre +5%'', Some ?q1), (''Cobre -5%'', Some ?q2),
     (''Petroleo +5%'', Some ?q0), (''Petroleo -5%'', Some ?q0),
     (''EUR/CNY +5%'', Some (b * (e * 1.05) * (p / 100) / (c * u) * 0.000453592)),
     (''EUR/CNY -5%'', Some (b * (e * 0.95) * (p / 100) / (c * u) * 0.000453592))]"
  have k: "0 < ?k" using assms by simp
  have nz: "c * u \<noteq> 0" "c * 1.05 * u \<noteq> 0" "c * 0.95 * u \<noteq> 0" using assms by simp_all
  have up: "?q1 < ?q0"
    by (rule quantity_ton_strict_mono [OF k]) (use assms in simp_all)
  have down: "?q0 < ?q2"
    by (rule quantity_ton_strict_mono [OF k]) (use assms in simp_all)
  have rs: "sensitivity_results b p t (Some c) (Some oil) (Some e) (Some u) = Some ?rs"
    unfolding sensitivity_results_Some order_body_quantities using nz by simp
  have base: "copper_quantity_ton (calculate_order b p t (Some c) (Some oil) (Some e) (Some u)) = Some ?q0"
    unfolding calculate_order_Some order_body_quantities using nz by simp
  have l1: "map_of ?rs ''Cobre +5%'' = Some (Some ?q1)" by simp
  have l2: "map_of ?rs ''Cobre -5%'' = Some (Some ?q2)" by simp
  from rs base l1 l2 up down show ?thesis by blast
qed

theorem sensitivity_copper_strict_witness:
  "(0::real) < 100000 \<and> (0::real) < 50 \<and> (0::real) < 4.5 \<and> (0::real) < 7.8 \<and> (0::real) < 7.2 \<and>
   copper_quantity_ton (calculate_order 100000 50 1 (Some 4.5) (Some 80) (Some 7.8) (Some 7.2))
     = Some (390000 / 32.4 * 0.000453592) \<and>
   map_of (the (sensitivity_results 100000 50 1 (Some 4.5) (Some 80) (Some 7.8) (Some 7.2))) ''Cobre +5%''
     = Some (Some (390000 / 34.02 * 0.000453592)) \<and>
   map_of (the (sensitivity_results 100000 50 1 (Some 4.5) (Some 80) (Some 7.8) (Some 7.2))) ''Cobre -5%''
     = Some (Some (390000 / 30.78 * 0.000453592)) \<and>
   (390000 / 34.02 * 0.000453592 :: real) < 390000 / 32.4 * 0.000453592 \<and>
   (390000 / 32.4 * 0.000453592 :: real) < 390000 / 30.78 * 0.000453592"
  using sensitivity_copper_strict [where b = 100000 and p = 50 and t = 1 and c = "4.5"
      and oil = 80 and e = "7.8" and u = "7.2"]
  by (simp add: sensitivity_results_Some calculate_order_Some order_body_quantities)

subsection \<open>C9: the oil price does not enter the quantity\<close>

text \<open>
  C9: two calls that differ only in a numeric oil price return the same copper quantity in
  pounds and in tonnes; hence, when the four current prices are numbers, the two oil
  scenarios of the sensitivity table record exactly the quantity of the baseline call.
\<close>

theorem quantity_independent_of_oil:
  "copper_quantity_lb (calculate_order b p t cp (Some oil_a) ec uc) =
     copper_quantity_lb (calculate_order b p t cp (Some oil_b) ec uc) \<and>
   copper_quantity_ton (calculate_order b p t cp (Some oil_a) ec uc) =
     copper_quantity_ton (calculate_order b p t cp (Some oil_b) ec uc) \<and>
   (\<exists>rs. sensitivity_results b p t (Some c) (Some oil) (Some e) (Some u) = Some rs \<and>
     map_of rs ''Petroleo +5%'' =
       Some (copper_quantity_ton (calculate_order b p t (Some c) (Some oil) (Some e) (Some u))) \<and>
     map_of rs ''Petroleo -5%'' =
       Some (copper_quantity_ton (calculate_order b p t (Some c) (Some oil) (Some e) (Some u))))"
  by (simp add: sensitivity_results_Some calculate_order_def isnan_def order_body_quantities)

theorem quantity_independent_of_oil_witness:
  "copper_quantity_ton (calculate_order 100000 50 1 (Some 4.5) (Some 80) (Some 7.8) (Some 7.2)) =
     copper_quantity_ton (calculate_order 100000 50 1 (Some 4.5) (Some 20) (Some 7.8) (Some 7.2)) \<and>
   copper_quantity_ton (calculate_order 100000 50 1 (Some 4.5) (Some 80) (Some 7.8) (Some 7.2))
     = Some (390000 / 32.4 * 0.000453592) \<and>
   map_of (the (sensitivity_results 100000 50 1 (Some 4.5) (Some 80) (Some 7.8) (Some 7.2))) ''Petroleo +5%''
     = Some (Some (390000 / 32.4 * 0.000453592))"
  using quantity_independent_of_oil [where b = 100000 and p = 50 and t = 1 and cp = "Some 4.5"
      and oil_a = 80 and oil_b = 20 and ec = "Some 7.8" and uc = "Some 7.2" and c = "4.5" and oil = 80
      and e = "7.8" and u = "7.2"]
  by (simp add: sensitivity_results_Some calculate_order_Some order_body_quantities)

subsection \<open>C10: the sign of the budget status\<close>







section \<open>Properties of the trend\<close>

lemma sum_list_arange: "sum_list (map f (arange n)) = (\<Sum>i<n. f (real i))"
proof -
  have "sum_list (map f (arange n)) = sum_list (map (\<lambda>i. f (real i)) [0..<n])"
    by (simp add: arange_def comp_def)
  also have "\<dots> = (\<Sum>i<n. f (real i))"
    by (simp add: interv_sum_list_conv_sum_set_nat atLeast0LessThan)
  finally show ?thesis .
qed

lemma sum_list_map2_arange:
  assumes "length ys = n"
  shows "sum_list (map2 f (arange n) ys) = (\<Sum>i<n. f (real i) (ys ! i))"
proof -
  have "map2 f (arange n) ys = map (\<lambda>i. f (real i) (ys ! i)) [0..<n]"
    using assms by (intro nth_equalityI) (simp_all add: arange_def)
  then show ?thesis
    by (simp add: interv_sum_list_conv_sum_set_nat atLeast0LessThan)
qed

lemma sum_list_nth: "sum_list ys = (\<Sum>i<length ys. ys ! i)"
  by (simp add: sum_list_sum_nth atLeast0LessThan)

lemma ols_expand:
  fixes u v :: "nat \<Rightarrow> real"
  assumes u0: "(\<Sum>i<n. u i) = 0" and v0: "(\<Sum>i<n. v i) = 0"
  shows "(\<Sum>i<n. (v i - \<beta> * u i + \<delta>)\<^sup>2) =
         (\<Sum>i<n. (v i)\<^sup>2) - 2 * \<beta> * (\<Sum>i<n. u i * v i) + \<beta>\<^sup>2 * (\<Sum>i<n. (u i)\<^sup>2) + real n * \<delta>\<^sup>2"
proof -
  have "(\<Sum>i<n. (v i - \<beta> * u i + \<delta>)\<^sup>2) =
        (\<Sum>i<n. (v i)\<^sup>2 - 2 * \<beta> * (u i * v i) + \<beta>\<^sup>2 * (u i)\<^sup>2 + 2 * \<delta> * v i - 2 * \<delta> * \<beta> * u i + \<delta>\<^sup>2)"
    by (intro sum.cong refl) (simp add: power2_eq_square algebra_simps)
  also have "\<dots> = (\<Sum>i<n. (v i)\<^sup>2) - 2 * \<beta> * (\<Sum>i<n. u i * v i) + \<beta>\<^sup>2 * (\<Sum>i<n. (u i)\<^sup>2)
        + 2 * \<delta> * (\<Sum>i<n. v i) - 2 * \<delta> * \<beta> * (\<Sum>i<n. u i) + real n * \<delta>\<^sup>2"
    by (simp add: sum.distrib sum_subtractf sum_distrib_left)
  finally show ?thesis using u0 v0 by simp
qed

lemma ols_minimal:
  fixes x y :: "nat \<Rightarrow> real"
  assumes n: "0 < n"
    and xm: "xm = (\<Sum>i<n. x i) / real n" and ym: "ym = (\<Sum>i<n. y i) / real n"
    and sxx: "sxx = (\<Sum>i<n. (x i - xm)\<^sup>2)" and sxy: "sxy = (\<Sum>i<n. (x i - xm) * (y i - ym))"
    and pos: "0 < sxx" and b: "b = sxy / sxx"
  shows "(\<Sum>i<n. (y i - ((ym - b * xm) + b * x i))\<^sup>2) \<le> (\<Sum>i<n. (y i - (a' + b' * x i))\<^sup>2)"
proof -
  define u where "u = (\<lambda>i. x i - xm)"
  define v where "v = (\<lambda>i. y i - ym)"
  define syy where "syy = (\<Sum>i<n. (v i)\<^sup>2)"
  have u0: "(\<Sum>i<n. u i) = 0"
    using n by (simp add: u_def xm sum_subtractf)
  have v0: "(\<Sum>i<n. v i) = 0"
    using n by (simp add: v_def ym sum_subtractf)
  have suu: "(\<Sum>i<n. (u i)\<^sup>2) = sxx" by (simp add: u_def sxx)
  have suv: "(\<Sum>i<n. u i * v i) = sxy" by (simp add: u_def v_def sxy)
  have lhs: "(\<Sum>i<n. (y i - ((ym - b * xm) + b * x i))\<^sup>2) = syy - 2 * b * sxy + b\<^sup>2 * sxx"
  proof -
    have "(\<Sum>i<n. (y i - ((ym - b * xm) + b * x i))\<^sup>2) = (\<Sum>i<n. (v i - b * u i + 0)\<^sup>2)"
      by (intro sum.cong refl) (simp add: u_def v_def algebra_simps)
    also have "\<dots> = syy - 2 * b * sxy + b\<^sup>2 * sxx"
      by (simp only: ols_expand [OF u0 v0] suu suv syy_def) simp
    finally show ?thesis .
  qed
  define d where "d = ym - a' - b' * xm"
  have rhs: "(\<Sum>i<n. (y i - (a' + b' * x i))\<^sup>2) = syy - 2 * b' * sxy + b'\<^sup>2 * sxx + real n * d\<^sup>2"
  proof -
    have "(\<Sum>i<n. (y i - (a' + b' * x i))\<^sup>2) = (\<Sum>i<n. (v i - b' * u i + d)\<^sup>2)"
      by (intro sum.cong refl) (simp add: u_def v_def d_def algebra_simps)
    also have "\<dots> = syy - 2 * b' * sxy + b'\<^sup>2 * sxx + real n * d\<^sup>2"
      by (simp only: ols_expand [OF u0 v0] suu suv syy_def)
    finally show ?thesis .
  qed
  have bs: "sxy = b * sxx" using pos b by simp
  have "(syy - 2 * b' * sxy + b'\<^sup>2 * sxx + real n * d\<^sup>2) - (syy - 2 * b * sxy + b\<^sup>2 * sxx)
        = sxx * (b' - b)\<^sup>2 + real n * d\<^sup>2"
    unfolding bs by (simp add: power2_eq_square algebra_simps)
  moreover have "0 \<le> sxx * (b' - b)\<^sup>2 + real n * d\<^sup>2"
    using pos by simp
  ultimately show ?thesis unfolding lhs rhs by linarith
qed


lemma length_arange [simp]: "length (arange n) = n"
  by (simp add: arange_def)

lemma nth_arange [simp]: "i < n \<Longrightarrow> arange n ! i = real i"
  by (simp add: arange_def)

lemma arange_not_constant:
  assumes "2 \<le> n"
  shows "\<not> list_all (\<lambda>a. a = hd (arange n)) (arange n)"
proof
  assume all: "list_all (\<lambda>a. a = hd (arange n)) (arange n)"
  have ne: "arange n \<noteq> []" using assms by (auto simp: arange_def)
  have "arange n ! 1 \<in> set (arange n)" using assms by (intro nth_mem) simp
  with all have "arange n ! 1 = hd (arange n)" by (simp add: list_all_iff)
  also have "hd (arange n) = arange n ! 0" using ne by (simp add: hd_conv_nth)
  finally show False using assms by simp
qed

lemma sxx_arange_pos:
  assumes "2 \<le> n"
  shows "0 < (\<Sum>i<n. (real i - m)\<^sup>2)"
proof -
  have nonneg: "0 \<le> (\<Sum>i<n. (real i - m)\<^sup>2)" by (intro sum_nonneg) simp
  have "(\<Sum>i<n. (real i - m)\<^sup>2) \<noteq> 0"
  proof
    assume "(\<Sum>i<n. (real i - m)\<^sup>2) = 0"
    then have z: "\<forall>i\<in>{..<n}. (real i - m)\<^sup>2 = 0"
      by (subst (asm) sum_nonneg_eq_0_iff) simp_all
    from z assms have "(real 0 - m)\<^sup>2 = 0" "(real 1 - m)\<^sup>2 = 0" by auto
    then show False by simp
  qed
  with nonneg show ?thesis by simp
qed

lemma linregress_slope_arange:
  assumes "2 \<le> length ys"
  shows "\<exists>slope. linregress_slope (arange (length ys)) (map Some ys) = Inr (Some slope) \<and>
           (\<exists>a. \<forall>a' b'. sse ys a slope \<le> sse ys a' b')"
proof -
  define n where "n = length ys"
  define xm where "xm = (\<Sum>i<n. real i) / real n"
  define ym where "ym = (\<Sum>i<n. ys ! i) / real n"
  define sxx where "sxx = (\<Sum>i<n. (real i - xm)\<^sup>2)"
  define sxy where "sxy = (\<Sum>i<n. (real i - xm) * (ys ! i - ym))"
  have n2: "2 \<le> n" using assms by (simp add: n_def)
  have pos: "0 < sxx" unfolding sxx_def by (rule sxx_arange_pos [OF n2])
  have mx: "mean (arange n) = xm"
    using sum_list_arange [of "\<lambda>a. a" n] by (simp add: mean_def xm_def)
  have my: "mean ys = ym"
    by (simp add: mean_def ym_def n_def sum_list_nth)
  have ssxm: "sum_list (map (\<lambda>a. (a - xm) * (a - xm)) (arange n)) = sxx"
    by (simp add: sum_list_arange sxx_def power2_eq_square)
  have ssxym: "sum_list (map2 (\<lambda>a b. (a - xm) * (b - ym)) (arange n) ys) = sxy"
    by (simp add: sum_list_map2_arange [OF n_def [symmetric]] sxy_def)
  have nonempty: "arange n \<noteq> []" "ys \<noteq> []" using n2 by (auto simp: n_def arange_def)
  have nonan: "\<not> list_ex isnan (map Some ys)" by (simp add: list_ex_iff isnan_def)
  have the_ys: "map the (map Some ys) = ys" by (simp add: comp_def)
  have nz: "sxx / real n \<noteq> 0" using pos n2 by simp
  have slope: "linregress_slope (arange n) (map Some ys) = Inr (Some (sxy / sxx))"
    unfolding linregress_slope_def
    using nonempty arange_not_constant [OF n2] nonan nz n2
    by (simp add: Let_def the_ys mx my ssxm ssxym)
  have "sse ys (ym - (sxy / sxx) * xm) (sxy / sxx) \<le> sse ys a' b'" for a' b'
    unfolding sse_def n_def [symmetric]
    by (rule ols_minimal [where xm = xm and ym = ym and sxx = sxx and sxy = sxy])
       (use n2 pos in \<open>simp_all add: xm_def ym_def sxx_def sxy_def\<close>)
  with slope show ?thesis unfolding n_def by blast
qed

lemma length_tail: "length (tail n xs) = min n (length xs)"
  by (simp add: tail_def)

lemma tail_map: "tail n (map f xs) = map f (tail n xs)"
  by (simp add: tail_def drop_map)

lemma calculate_trend_Some:
  assumes "2 \<le> period" "period \<le> length historical_data" "tail period historical_data = map Some ys"
  shows "\<exists>slope. calculate_trend historical_data period
                 = Inr (Some slope, if slope > 0 then ''Alcista'' else ''Bajista'') \<and>
               (\<exists>a. \<forall>a' b'. sse ys a slope \<le> sse ys a' b')"
proof -
  have len: "length ys = period"
    using length_tail [of period historical_data] assms by simp
  with assms have "2 \<le> length ys" by simp
  from linregress_slope_arange [OF this] obtain slope where
    s: "linregress_slope (arange (length ys)) (map Some ys) = Inr (Some slope)"
    and m: "\<exists>a. \<forall>a' b'. sse ys a slope \<le> sse ys a' b'" by blast
  have ne: "historical_data \<noteq> []" using assms by auto
  have "calculate_trend historical_data period
          = Inr (Some slope, if slope > 0 then ''Alcista'' else ''Bajista'')"
    using assms ne s by (simp add: calculate_trend_def Let_def)
  with m show ?thesis by blast
qed

lemma linregress_slope_zeros:
  assumes "2 \<le> n"
  shows "linregress_slope (arange n) (replicate n (Some 0)) = Inr (Some 0)"
proof -
  define xm where "xm = mean (arange n)"
  have ne: "arange n \<noteq> []" "replicate n (Some (0::real)) \<noteq> []"
    using assms by (auto simp: arange_def)
  have nonan: "\<not> list_ex isnan (replicate n (Some 0))"
    by (simp add: list_ex_iff isnan_def)
  have ys: "map the (replicate n (Some (0::real))) = replicate n 0" by simp
  have my: "mean (replicate n 0) = 0" by (simp add: mean_def sum_list_replicate)
  have sxy: "sum_list (map2 (\<lambda>a b. (a - xm) * b) (arange n) (replicate n 0)) = 0"
    by (subst sum_list_map2_arange) simp_all
  have "0 < (\<Sum>i<n. (real i - xm)\<^sup>2)" by (rule sxx_arange_pos [OF assms])
  then have sxx: "sum_list (map (\<lambda>a. (a - xm) * (a - xm)) (arange n)) / real n \<noteq> 0"
    using assms by (simp add: sum_list_arange power2_eq_square)
  show ?thesis
    unfolding linregress_slope_def
    using ne arange_not_constant [OF assms] nonan sxx assms
    by (simp add: Let_def ys my sxy xm_def [symmetric] del: map_replicate)
qed

subsection \<open>C7: short series and the least squares fit\<close>

text \<open>
  C7 as stated fails: a series of three closes, at least 2 and fewer than the window of 30,
  is not fitted over its three closes; the trend is indeterminate.
\<close>

theorem calculate_trend_short_series:
  "calculate_trend [Some 1, Some 2, Some 3] 30 = Inr (None, ''Indeterminada'')"
  by (simp add: calculate_trend_def)

text \<open>
  C7, amended: the trend is indeterminate whenever the series is empty or has fewer rows
  than the window.
  For a window of at least 2, a series of at least that many rows and numbers as its last
  window closes, the function returns a slope that minimises the sum of squared residuals
  over those closes against their indices (the ordinary least squares fit), with the label
  Alcista when the slope is positive and Bajista otherwise. Whenever the series is not empty
  and has at least window rows, the label is Alcista for a positive slope and Bajista for
  any other slope, NaN included.
\<close>

theorem calculate_trend_ols:
  "(historical_data = [] \<or> length historical_data < period \<longrightarrow>
      calculate_trend historical_data period = Inr (None, ''Indeterminada'')) \<and>
   (2 \<le> period \<and> period \<le> length historical_data \<and> tail period historical_data = map Some ys \<longrightarrow>
      (\<exists>slope. calculate_trend historical_data period
                 = Inr (Some slope, if slope > 0 then ''Alcista'' else ''Bajista'') \<and>
               (\<exists>a. \<forall>a' b'. sse ys a slope \<le> sse ys a' b'))) \<and>
   (historical_data \<noteq> [] \<and> period \<le> length historical_data \<longrightarrow>
      (\<forall>slope label. calculate_trend historical_data period = Inr (slope, label) \<longrightarrow>
         label = (if (case slope of Some v \<Rightarrow> v > 0 | None \<Rightarrow> False) then ''Alcista'' else ''Bajista'')))"
proof (intro conjI impI)
  assume "historical_data = [] \<or> length historical_data < period"
  then show "calculate_trend historical_data period = Inr (None, ''Indeterminada'')"
    by (auto simp: calculate_trend_def)
next
  assume "2 \<le> period \<and> period \<le> length historical_data \<and> tail period historical_data = map Some ys"
  then show "\<exists>slope. calculate_trend historical_data period
                 = Inr (Some slope, if slope > 0 then ''Alcista'' else ''Bajista'') \<and>
               (\<exists>a. \<forall>a' b'. sse ys a slope \<le> sse ys a' b')"
    by (intro calculate_trend_Some) simp_all
next
  assume "historical_data \<noteq> [] \<and> period \<le> length historical_data"
  then show "\<forall>slope label. calculate_trend historical_data period = Inr (slope, label) \<longrightarrow>
         label = (if (case slope of Some v \<Rightarrow> v > 0 | None \<Rightarrow> False) then ''Alcista'' else ''Bajista'')"
    by (auto simp: calculate_trend_def Let_def split: sum.splits)
qed

theorem calculate_trend_ols_witness:
  "length [Some 1, Some 2, Some (3::real)] < 30 \<and>
   calculate_trend [Some 1, Some 2, Some 3] 30 = Inr (None, ''Indeterminada'') \<and>
   (2::nat) \<le> 3 \<and> 3 \<le> length [Some 1, Some 2, Some (4::real)] \<and>
   tail 3 [Some 1, Some 2, Some (4::real)] = map Some [1, 2, 4] \<and>
   calculate_trend [Some 1, Some 2, Some 4] 3 = Inr (Some (3 / 2), ''Alcista'') \<and>
   (\<exists>a. \<forall>a' b'. sse [1, 2, 4] a (3 / 2) \<le> sse [1, 2, 4] a' b')"
proof -
  have e: "calculate_trend [Some 1, Some 2, Some 4] 3 = Inr (Some (3 / 2), ''Alcista'')"
    by code_simp
  have t: "tail 3 [Some 1, Some 2, Some (4::real)] = map Some [1, 2, 4]"
    by (simp add: tail_def)
  from calculate_trend_ols [of "[Some 1, Some 2, Some 3]" 30 "[]"]
  have a: "calculate_trend [Some 1, Some 2, Some 3] 30 = Inr (None, ''Indeterminada'')"
    by simp
  from calculate_trend_ols [of "[Some 1, Some 2, Some 4]" 3 "[1, 2, 4]"] t
  obtain slope where
    s: "calculate_trend [Some 1, Some 2, Some 4] 3
          = Inr (Some slope, if slope > 0 then ''Alcista'' else ''Bajista'')"
    and m: "\<exists>a. \<forall>a' b'. sse [1, 2, 4] a slope \<le> sse [1, 2, 4] a' b'"
    by auto
  from s have "slope = 3 / 2" unfolding e by simp
  with m have b: "\<exists>a. \<forall>a' b'. sse [1, 2, 4] a (3 / 2) \<le> sse [1, 2, 4] a' b'"
    by simp
  from a b e t show ?thesis by simp
qed

section \<open>Properties of the exponentially weighted mean\<close>

lemma last_ewm_loop:
  "vals \<noteq> [] \<Longrightarrow> last (ewm_loop alpha adjust minp s vals) = ewm_out minp (foldl (ewm_step alpha adjust) s vals)"
proof (induction vals arbitrary: s)
  case Nil
  then show ?case by simp
next
  case (Cons v vals)
  show ?case
  proof (cases "vals = []")
    case True
    then show ?thesis by simp
  next
    case False
    then have "ewm_loop alpha adjust minp (ewm_step alpha adjust s v) vals \<noteq> []"
      by (cases vals) simp_all
    then show ?thesis using Cons.IH [OF False] by simp
  qed
qed

lemma last_ewm_mean:
  "last (ewm_mean alpha adjust mp (v # rest)) =
     ewm_out (max mp 1) (foldl (ewm_step alpha adjust)
        \<lparr>weighted = v, old_wt = 1, nobs = (if isnan v then 0 else 1)\<rparr> rest)"
proof (cases "rest = []")
  case True
  then show ?thesis by (simp add: ewm_mean_def Let_def)
next
  case False
  then have "ewm_loop alpha adjust (max mp 1) \<lparr>weighted = v, old_wt = 1, nobs = (if isnan v then 0 else 1)\<rparr> rest \<noteq> []"
    by (cases rest) simp_all
  then show ?thesis
    using last_ewm_loop [OF False] by (simp add: ewm_mean_def Let_def)
qed

lemma length_ewm_loop [simp]: "length (ewm_loop alpha adjust minp s vals) = length vals"
  by (induction vals arbitrary: s) simp_all

lemma length_ewm_mean [simp]: "length (ewm_mean alpha adjust mp vals) = length vals"
  by (cases vals) (simp_all add: ewm_mean_def Let_def)

lemma nobs_ewm_step: "nobs (ewm_step alpha adjust s (Some v)) = nobs s + 1"
  by (simp add: ewm_step_def Let_def isnan_def split: option.splits)

lemma nobs_foldl:
  "nobs (foldl (ewm_step alpha adjust) s (map Some vs)) = nobs s + length vs"
  by (induction vs arbitrary: s) (simp_all add: nobs_ewm_step)

lemma ewm_step_adjust_inv:
  assumes "0 < old_wt s" "\<forall>w. weighted s = Some w \<longrightarrow> 0 \<le> w" "0 \<le> c" "0 < alpha" "alpha \<le> 1"
  shows "0 < old_wt (ewm_step alpha True s (Some c))"
    and "\<exists>w. weighted (ewm_step alpha True s (Some c)) = Some w \<and> 0 \<le> w \<and> (0 < c \<longrightarrow> 0 < w)"
proof -
  have ow: "0 \<le> old_wt s * (1 - alpha)" using assms by simp
  have den: "0 < old_wt s * (1 - alpha) + 1" using ow by linarith
  show "0 < old_wt (ewm_step alpha True s (Some c))"
    using assms(1) den by (auto simp: ewm_step_def Let_def split: option.splits)
  show "\<exists>w. weighted (ewm_step alpha True s (Some c)) = Some w \<and> 0 \<le> w \<and> (0 < c \<longrightarrow> 0 < w)"
  proof (cases "weighted s")
    case None
    then show ?thesis using assms by (simp add: ewm_step_def Let_def)
  next
    case (Some w)
    with assms have w0: "0 \<le> w" by simp
    have oww: "0 \<le> old_wt s * (1 - alpha) * w" using ow w0 by (rule mult_nonneg_nonneg)
    have num: "0 \<le> old_wt s * (1 - alpha) * w + c" using oww assms(3) by linarith
    have nump: "0 < c \<Longrightarrow> 0 < old_wt s * (1 - alpha) * w + c"
      using oww by linarith
    have q: "0 \<le> (old_wt s * (1 - alpha) * w + c) / (old_wt s * (1 - alpha) + 1)"
      using num den by (intro divide_nonneg_pos)
    have qp: "0 < c \<Longrightarrow> 0 < (old_wt s * (1 - alpha) * w + c) / (old_wt s * (1 - alpha) + 1)"
      using nump den by (intro divide_pos_pos)
    have eq: "weighted (ewm_step alpha True s (Some c)) =
        Some (if w \<noteq> c then (old_wt s * (1 - alpha) * w + c) / (old_wt s * (1 - alpha) + 1) else w)"
      using Some by (simp add: ewm_step_def Let_def)
    show ?thesis
      unfolding eq using w0 q qp by (cases "w = c") simp_all
  qed
qed

lemma ewm_foldl_inv:
  assumes "0 < old_wt s" "\<forall>w. weighted s = Some w \<longrightarrow> 0 \<le> w" "\<forall>v\<in>set vs. 0 \<le> v" "0 < alpha" "alpha \<le> 1"
  shows "0 < old_wt (foldl (ewm_step alpha True) s (map Some vs)) \<and>
         (\<forall>w. weighted (foldl (ewm_step alpha True) s (map Some vs)) = Some w \<longrightarrow> 0 \<le> w)"
  using assms(3)
proof (induction vs rule: rev_induct)
  case Nil
  then show ?case using assms by simp
next
  case (snoc v vs)
  then have ih: "0 < old_wt (foldl (ewm_step alpha True) s (map Some vs))"
      "\<forall>w. weighted (foldl (ewm_step alpha True) s (map Some vs)) = Some w \<longrightarrow> 0 \<le> w"
    and v0: "0 \<le> v" by simp_all
  from ewm_step_adjust_inv [OF ih v0 assms(4,5)] show ?case by auto
qed

lemma ewm_foldl_last:
  assumes "0 < old_wt s" "\<forall>w. weighted s = Some w \<longrightarrow> 0 \<le> w" "\<forall>v\<in>set vs. 0 \<le> v" "0 < alpha" "alpha \<le> 1"
    and "vs \<noteq> []"
  shows "\<exists>w. weighted (foldl (ewm_step alpha True) s (map Some vs)) = Some w \<and> 0 \<le> w \<and>
             (0 < last vs \<longrightarrow> 0 < w)"
proof -
  from assms(6) obtain us v where vs: "vs = us @ [v]" by (metis rev_exhaust)
  have inv: "0 < old_wt (foldl (ewm_step alpha True) s (map Some us))"
     "\<forall>w. weighted (foldl (ewm_step alpha True) s (map Some us)) = Some w \<longrightarrow> 0 \<le> w"
    using ewm_foldl_inv [OF assms(1,2) _ assms(4,5), of us] assms(3) vs by auto
  have v0: "0 \<le> v" using assms(3) vs by simp
  from ewm_step_adjust_inv(2) [OF inv v0 assms(4,5)] show ?thesis by (simp add: vs)
qed

lemma ewm_foldl_zero:
  assumes "weighted s = None \<or> weighted s = Some 0" "\<forall>v\<in>set vs. v = 0" "vs \<noteq> []"
  shows "weighted (foldl (ewm_step alpha True) s (map Some vs)) = Some 0"
  using assms
proof (induction vs arbitrary: s)
  case Nil
  then show ?case by simp
next
  case (Cons v vs)
  have st: "weighted (ewm_step alpha True s (Some v)) = Some 0"
    using Cons.prems by (auto simp: ewm_step_def Let_def)
  show ?case
  proof (cases "vs = []")
    case True
    then show ?thesis using st by simp
  next
    case False
    then show ?thesis using Cons.IH [of "ewm_step alpha True s (Some v)"] st Cons.prems by simp
  qed
qed

section \<open>Properties of the RSI\<close>

lemma length_deltas [simp]: "length (deltas xs) = length xs - 1"
  by (simp add: deltas_def)

lemma diff_Some:
  assumes "xs \<noteq> []"
  shows "diff (map Some xs) = None # map Some (deltas xs)"
proof -
  from assms obtain x rest where xs: "xs = x # rest" by (cases xs) auto
  have "map2 (\<lambda>prev cur. fl_sub cur prev) (map Some xs) (map Some rest)
        = map Some (map2 (\<lambda>prev cur. cur - prev) xs rest)"
    by (simp add: zip_map_map fl_sub_def split_def)
  then show ?thesis by (simp add: diff_def xs deltas_def)
qed

lemma gain_of_Some: "gain_of (None # map Some ds) = None # map Some (map (\<lambda>d. max d 0) ds)"
  by (simp add: gain_of_def)

lemma loss_of_Some: "loss_of (None # map Some ds) = None # map Some (map (\<lambda>d. - min d 0) ds)"
  by (simp add: loss_of_def)

lemma ewm_last_nonneg:
  assumes "1 \<le> period" "period \<le> length vs" "\<forall>v\<in>set vs. 0 \<le> v"
  shows "\<exists>w. last (ewm_mean (1 / real period) True period (None # map Some vs)) = Some w \<and> 0 \<le> w \<and>
             ((\<forall>v\<in>set vs. v = 0) \<longrightarrow> w = 0) \<and> (0 < last vs \<longrightarrow> 0 < w)"
proof -
  let ?s = "\<lparr>weighted = None, old_wt = 1, nobs = 0\<rparr>"
  let ?f = "foldl (ewm_step (1 / real period) True) ?s (map Some vs)"
  have ne: "vs \<noteq> []" using assms by auto
  have a: "0 < 1 / real period" "1 / real period \<le> 1" using assms(1) by simp_all
  have n: "nobs ?f = length vs" by (simp add: nobs_foldl)
  have out: "last (ewm_mean (1 / real period) True period (None # map Some vs)) = weighted ?f"
    using assms n by (simp add: last_ewm_mean isnan_def ewm_out_def max_def)
  from ewm_foldl_last [OF _ _ assms(3) a ne, of ?s]
  obtain w where w: "weighted ?f = Some w" "0 \<le> w" "0 < last vs \<longrightarrow> 0 < w" by auto
  have z: "(\<forall>v\<in>set vs. v = 0) \<longrightarrow> w = 0"
    using ewm_foldl_zero [of ?s vs "1 / real period"] ne w(1) by auto
  show ?thesis unfolding out using w z by blast
qed

lemma calculate_rsi_last:
  assumes "1 \<le> period" "period + 1 \<le> length historical_data"
  shows "calculate_rsi historical_data period =
    Inr (x_sub (Fin 100) (x_div (Fin 100) (x_add (Fin 1)
          (x_div (of_fl (last (avg_gain_of historical_data period)))
                 (of_fl (last (avg_loss_of historical_data period)))))))"
proof -
  let ?g = "avg_gain_of historical_data period"
  let ?l = "avg_loss_of historical_data period"
  have len: "length ?g = length historical_data" "length ?l = length historical_data"
    by (simp_all add: avg_gain_of_def avg_loss_of_def gain_of_def loss_of_def diff_def split: list.splits)
  have ne: "historical_data \<noteq> []" "?g \<noteq> []" "?l \<noteq> []" using assms len by auto
  have z: "last (zip ?g ?l) = (last ?g, last ?l)"
    using ne len by (intro last_zip) simp_all
  have zne: "zip ?g ?l \<noteq> []" using ne by (cases ?g; cases ?l) simp_all
  show ?thesis
    using assms ne zne by (simp add: calculate_rsi_def Let_def last_map z)
qed

subsection \<open>C4: the range of the RSI\<close>

text \<open>
  C4 as stated fails: for fifteen equal closes and the period 14 both smoothed averages are
  zero, the quotient is zero by zero, and the RSI is NaN, not 100.
\<close>

theorem calculate_rsi_constant_series:
  "calculate_rsi (replicate 15 (Some 4.5)) 14 = Inr XNaN"
  by code_simp

text \<open>
  C4, amended: for a period of at least 1 and a series of at least period + 1 numbers, the
  last smoothed average gain \<open>g\<close> and loss \<open>l\<close> are non-negative numbers. The RSI is NaN
  when both are zero, as for a constant series; it is 100 when the loss is zero and the gain
  positive, as for a non-decreasing series whose last step rises; otherwise it is
  \<open>100 - 100 / (1 + g / l)\<close>, a number from 0 up to but not including 100.
\<close>

theorem calculate_rsi_range:
  assumes "1 \<le> period" "period + 1 \<le> length xs"
  shows "\<exists>g l. last (avg_gain_of (map Some xs) period) = Some g \<and>
               last (avg_loss_of (map Some xs) period) = Some l \<and> 0 \<le> g \<and> 0 \<le> l \<and>
     (g = 0 \<and> l = 0 \<longrightarrow> calculate_rsi (map Some xs) period = Inr XNaN) \<and>
     (0 < g \<and> l = 0 \<longrightarrow> calculate_rsi (map Some xs) period = Inr (Fin 100)) \<and>
     (0 < l \<longrightarrow> calculate_rsi (map Some xs) period = Inr (Fin (100 - 100 / (1 + g / l))) \<and>
                  0 \<le> 100 - 100 / (1 + g / l) \<and> 100 - 100 / (1 + g / l) < 100) \<and>
     ((\<forall>d\<in>set (deltas xs). d = 0) \<longrightarrow> calculate_rsi (map Some xs) period = Inr XNaN) \<and>
     ((\<forall>d\<in>set (deltas xs). 0 \<le> d) \<and> 0 < last (deltas xs) \<longrightarrow>
         calculate_rsi (map Some xs) period = Inr (Fin 100))"
proof -
  let ?ds = "deltas xs"
  have ne: "xs \<noteq> []" using assms by auto
  have "0 < length ?ds" using assms by simp
  then have dne: "?ds \<noteq> []" by (rule length_greater_0_conv [THEN iffD1])
  have plen: "period \<le> length (map (\<lambda>d. max d 0) ?ds)" "period \<le> length (map (\<lambda>d. - min d 0) ?ds)"
    using assms by simp_all
  have gs: "avg_gain_of (map Some xs) period
      = ewm_mean (1 / real period) True period (None # map Some (map (\<lambda>d. max d 0) ?ds))"
    by (simp add: avg_gain_of_def diff_Some [OF ne] gain_of_Some)
  have ls: "avg_loss_of (map Some xs) period
      = ewm_mean (1 / real period) True period (None # map Some (map (\<lambda>d. - min d 0) ?ds))"
    by (simp add: avg_loss_of_def diff_Some [OF ne] loss_of_Some)
  from ewm_last_nonneg [OF assms(1) plen(1)] obtain g where
    g: "last (avg_gain_of (map Some xs) period) = Some g" "0 \<le> g"
       "(\<forall>v\<in>set (map (\<lambda>d. max d 0) ?ds). v = 0) \<longrightarrow> g = 0"
       "0 < last (map (\<lambda>d. max d 0) ?ds) \<longrightarrow> 0 < g"
    unfolding gs by auto
  from ewm_last_nonneg [OF assms(1) plen(2)] obtain l where
    l: "last (avg_loss_of (map Some xs) period) = Some l" "0 \<le> l"
       "(\<forall>v\<in>set (map (\<lambda>d. - min d 0) ?ds). v = 0) \<longrightarrow> l = 0"
    unfolding ls by auto
  have rsi: "calculate_rsi (map Some xs) period =
      Inr (x_sub (Fin 100) (x_div (Fin 100) (x_add (Fin 1) (x_div (Fin g) (Fin l)))))"
    using calculate_rsi_last [of period "map Some xs"] assms by (simp add: g(1) l(1) of_fl_def)
  have c1: "g = 0 \<and> l = 0 \<longrightarrow> calculate_rsi (map Some xs) period = Inr XNaN"
    by (simp add: rsi x_sub_def)
  have c2: "0 < g \<and> l = 0 \<longrightarrow> calculate_rsi (map Some xs) period = Inr (Fin 100)"
    by (simp add: rsi x_sub_def)
  have c3: "0 < l \<longrightarrow> calculate_rsi (map Some xs) period = Inr (Fin (100 - 100 / (1 + g / l))) \<and>
                  0 \<le> 100 - 100 / (1 + g / l) \<and> 100 - 100 / (1 + g / l) < 100"
  proof
    assume lp: "0 < l"
    then have q: "0 \<le> g / l" using g(2) by simp
    then have d: "1 \<le> 1 + g / l" by simp
    then have nz: "1 + g / l \<noteq> 0" by linarith
    have le: "100 / (1 + g / l) \<le> 100" using d by (simp add: divide_le_eq)
    have gt: "0 < 100 / (1 + g / l)" using d by simp
    show "calculate_rsi (map Some xs) period = Inr (Fin (100 - 100 / (1 + g / l))) \<and>
                  0 \<le> 100 - 100 / (1 + g / l) \<and> 100 - 100 / (1 + g / l) < 100"
      using lp nz le gt by (simp add: rsi x_sub_def)
  qed
  have c4: "(\<forall>d\<in>set ?ds. d = 0) \<longrightarrow> calculate_rsi (map Some xs) period = Inr XNaN"
    using g(3) l(3) c1 by auto
  have c5: "(\<forall>d\<in>set ?ds. 0 \<le> d) \<and> 0 < last ?ds \<longrightarrow> calculate_rsi (map Some xs) period = Inr (Fin 100)"
  proof
    assume h: "(\<forall>d\<in>set ?ds. 0 \<le> d) \<and> 0 < last ?ds"
    then have "l = 0" using l(3) by (auto simp: min_def)
    moreover have "0 < g" using g(4) h dne by (simp add: last_map)
    ultimately show "calculate_rsi (map Some xs) period = Inr (Fin 100)" using c2 by simp
  qed
  from g(1,2) l(1,2) c1 c2 c3 c4 c5 show ?thesis by blast
qed


theorem calculate_rsi_range_witness:
  "(1::nat) \<le> 2 \<and> 2 + 1 \<le> length [5, 6, 5, 7::real] \<and>
   last (avg_gain_of (map Some [5, 6, 5, 7]) 2) = Some (9 / 7) \<and>
   last (avg_loss_of (map Some [5, 6, 5, 7]) 2) = Some (2 / 7) \<and>
   calculate_rsi (map Some [5, 6, 5, 7]) 2 = Inr (Fin (100 - 100 / (1 + (9 / 7) / (2 / 7)))) \<and>
   (0::real) \<le> 100 - 100 / (1 + (9 / 7) / (2 / 7)) \<and> (100 - 100 / (1 + (9 / 7) / (2 / 7)) :: real) < 100"
proof -
  have g: "last (avg_gain_of (map Some [5, 6, 5, 7]) 2) = Some (9 / 7)" by code_simp
  have l: "last (avg_loss_of (map Some [5, 6, 5, 7]) 2) = Some (2 / 7)" by code_simp
  have h: "(1::nat) \<le> 2" "2 + 1 \<le> length [5, 6, 5, 7::real]" by simp_all
  from calculate_rsi_range [OF h] obtain g' l' where
    g': "last (avg_gain_of (map Some [5, 6, 5, 7]) 2) = Some g'"
    and l': "last (avg_loss_of (map Some [5, 6, 5, 7]) 2) = Some l'"
    and r: "0 < l' \<longrightarrow> calculate_rsi (map Some [5, 6, 5, 7]) 2 = Inr (Fin (100 - 100 / (1 + g' / l'))) \<and>
                  0 \<le> 100 - 100 / (1 + g' / l') \<and> 100 - 100 / (1 + g' / l') < 100"
    by blast
  from g g' have ge: "g' = 9 / 7" by simp
  from l l' have le: "l' = 2 / 7" by simp
  from r have "calculate_rsi (map Some [5, 6, 5, 7]) 2 = Inr (Fin (100 - 100 / (1 + (9 / 7) / (2 / 7))))"
    unfolding ge le by simp
  with g l show ?thesis by simp
qed

section \<open>Properties of the projection\<close>

lemma ewm_step_unadjusted:
  "ewm_step alpha False \<lparr>weighted = Some w, old_wt = 1, nobs = n\<rparr> (Some c) =
     \<lparr>weighted = Some ((1 - alpha) * w + alpha * c), old_wt = 1, nobs = n + 1\<rparr>"
  by (simp add: ewm_step_def Let_def isnan_def algebra_simps)

lemma ewm_foldl_unadjusted:
  "foldl (ewm_step alpha False) \<lparr>weighted = Some w, old_wt = 1, nobs = n\<rparr> (map Some vs) =
     \<lparr>weighted = Some (foldl (\<lambda>y v. (1 - alpha) * y + alpha * v) w vs), old_wt = 1,
      nobs = n + length vs\<rparr>"
  by (induction vs arbitrary: w n) (simp_all add: ewm_step_unadjusted)

lemma ewm_loop_unadjusted_Some:
  assumes "minp \<le> n"
  shows "\<forall>e\<in>set (ewm_loop alpha False minp \<lparr>weighted = Some w, old_wt = 1, nobs = n\<rparr> (map Some vs)).
           \<not> isnan e"
  using assms
proof (induction vs arbitrary: w n)
  case Nil
  then show ?case by simp
next
  case (Cons v vs)
  have "minp \<le> n + 1" using Cons.prems by simp
  from Cons.IH [OF this] Cons.prems show ?case
    by (simp add: ewm_step_unadjusted ewm_out_def isnan_def)
qed

lemma ewm_mean_unadjusted:
  assumes "xs \<noteq> []"
  shows "dropna (ewm_mean alpha False 0 (map Some xs)) \<noteq> []"
    and "last (dropna (ewm_mean alpha False 0 (map Some xs))) = ema_last alpha xs"
proof -
  from assms obtain x rest where xs: "xs = x # rest" by (cases xs) auto
  let ?s = "\<lparr>weighted = Some x, old_wt = 1, nobs = 1\<rparr>"
  let ?L = "ewm_mean alpha False 0 (map Some xs)"
  have L: "?L = ewm_out 1 ?s # ewm_loop alpha False 1 ?s (map Some rest)"
    by (simp add: ewm_mean_def xs Let_def isnan_def)
  have all: "\<forall>e\<in>set ?L. \<not> isnan e"
    unfolding L using ewm_loop_unadjusted_Some [of 1 1 alpha x rest]
    by (simp add: ewm_out_def isnan_def)
  then have f: "filter (\<lambda>e. \<not> isnan e) ?L = ?L" by (simp add: filter_id_conv)
  have ne: "?L \<noteq> []" by (simp add: L)
  have d: "dropna ?L = map the ?L" by (simp only: dropna_def f)
  show "dropna ?L \<noteq> []" using ne by (simp add: d)
  have "last ?L = ewm_out 1 (foldl (ewm_step alpha False) ?s (map Some rest))"
    using last_ewm_mean [of alpha False 0 "Some x" "map Some rest"]
    by (simp add: xs isnan_def)
  also have "\<dots> = Some (ema_last alpha xs)"
    by (simp add: ewm_foldl_unadjusted ewm_out_def ema_last_def xs)
  finally have "last ?L = Some (ema_last alpha xs)" .
  then show "last (dropna ?L) = ema_last alpha xs"
    using ne by (simp add: d last_map)
qed

lemma dropna_Some [simp]: "dropna (map Some xs) = xs"
  by (simp add: dropna_def isnan_def comp_def)

lemma std_Some: "std (map Some vs) = (if length vs < 2 then None else Some (sample_std vs))"
  by (simp add: std_def Let_def)

lemma project_future_price_Some:
  assumes "2 \<le> length xs" "2 \<le> span_n"
  shows "project_future_price (map Some xs) span_n =
    (Some (ema_last (2 / (real (min span_n (length xs)) + 1)) xs),
     Some (ema_last (2 / (real (min span_n (length xs)) + 1)) xs - sample_std (tail (min span_n (length xs)) xs)),
     Some (ema_last (2 / (real (min span_n (length xs)) + 1)) xs + sample_std (tail (min span_n (length xs)) xs)))"
proof -
  have ne: "xs \<noteq> []" using assms by auto
  let ?t = "min span_n (length xs)"
  have t2: "2 \<le> ?t" using assms by simp
  have lt: "length (tail ?t xs) = ?t" by (simp add: length_tail)
  show ?thesis
    using assms ne t2 lt ewm_mean_unadjusted [OF ne, of "2 / (real ?t + 1)"]
    by (simp add: project_future_price_def Let_def std_Some isnan_def fl_sub_def fl_add_def)
qed

lemma project_instrument_Some:
  assumes "2 \<le> span_n" "span_n \<le> length xs" "2 \<le> length cs"
  shows "\<exists>slope label. calculate_trend (map Some xs) span_n = Inr (Some slope, label) \<and>
     project_instrument (map Some xs) (map Some cs) price span_n days_ahead =
       Inr (Some (ema_last (2 / (real span_n + 1)) xs + slope * real days_ahead),
            Some (ema_last (2 / (real span_n + 1)) xs - sample_std (tail span_n xs)
                    + slope * real days_ahead - sample_std cs * sqrt (real days_ahead) / sqrt 252),
            Some (ema_last (2 / (real span_n + 1)) xs + sample_std (tail span_n xs)
                    + slope * real days_ahead + sample_std cs * sqrt (real days_ahead) / sqrt 252))"
proof -
  have m: "min span_n (length xs) = span_n" using assms by simp
  have l2: "2 \<le> length xs" using assms by simp
  have p: "project_future_price (map Some xs) span_n =
      (Some (ema_last (2 / (real span_n + 1)) xs),
       Some (ema_last (2 / (real span_n + 1)) xs - sample_std (tail span_n xs)),
       Some (ema_last (2 / (real span_n + 1)) xs + sample_std (tail span_n xs)))"
    using project_future_price_Some [OF l2 assms(1)] by (simp only: m)
  from calculate_trend_Some [of span_n "map Some xs" "tail span_n xs"] assms
  obtain slope where s: "calculate_trend (map Some xs) span_n
      = Inr (Some slope, if slope > 0 then ''Alcista'' else ''Bajista'')"
    by (auto simp: tail_map)
  have "project_instrument (map Some xs) (map Some cs) price span_n days_ahead =
       Inr (Some (ema_last (2 / (real span_n + 1)) xs + slope * real days_ahead),
            Some (ema_last (2 / (real span_n + 1)) xs - sample_std (tail span_n xs)
                    + slope * real days_ahead - sample_std cs * sqrt (real days_ahead) / sqrt 252),
            Some (ema_last (2 / (real span_n + 1)) xs + sample_std (tail span_n xs)
                    + slope * real days_ahead + sample_std cs * sqrt (real days_ahead) / sqrt 252))"
    using assms(3)
    by (simp add: project_instrument_def p s isnan_def std_Some Let_def fl_add_def fl_sub_def fl_mul_def)
  with s show ?thesis by blast
qed

lemma project_instrument_short:
  assumes "2 \<le> length xs" "length xs < span_n"
  shows "project_instrument (map Some xs) column price span_n days_ahead = Inr (None, None, None)"
proof -
  have s2: "2 \<le> span_n" using assms by simp
  have t: "calculate_trend (map Some xs) span_n = Inr (None, ''Indeterminada'')"
    using assms by (simp add: calculate_trend_def)
  show ?thesis
    by (simp add: project_instrument_def project_future_price_Some [OF assms(1) s2] t isnan_def
          Let_def fl_add_def fl_sub_def fl_mul_def)
qed

lemma ema_foldl_zeros:
  fixes alpha w :: real
  shows "foldl (\<lambda>y v. (1 - alpha) * y + alpha * v) w (replicate n 0) = (1 - alpha) ^ n * w"
  by (induction n arbitrary: w) simp_all

lemma sample_std_zeros: "sample_std (replicate n 0) = 0"
  by (simp add: sample_std_def mean_def sum_list_replicate)

lemma sample_std_spike: "sample_std (1 # replicate 30 0) = sqrt (1 / 31)"
  by (simp add: sample_std_def mean_def sum_list_replicate power2_eq_square)

subsection \<open>C6: what the projection computes\<close>

text \<open>
  C6 as stated fails. Take 31 closes, a 1 followed by thirty zeros, as the instrument's frame
  and as its column of the merged table, with span 30 and horizon 80. The moving average
  runs over all 31 closes and its last value is \<open>(29 / 31) ^ 30\<close>, not the 0 that an average
  over the last 30 closes gives; and the drift is taken from the spread of the whole column,
  \<open>sqrt (1 / 31)\<close>, not from the spread 0 of the last 30 closes. As the specification words
  it, expected, lower and upper would all be 0.
\<close>

theorem projection_average_over_all_closes:
  "project_future_price (Some 1 # replicate 30 (Some 0)) 30 =
     (Some ((29 / 31) ^ 30), Some ((29 / 31) ^ 30), Some ((29 / 31) ^ 30)) \<and>
   calculate_trend (Some 1 # replicate 30 (Some 0)) 30 = Inr (Some 0, ''Bajista'') \<and>
   project_instrument (Some 1 # replicate 30 (Some 0)) (Some 1 # replicate 30 (Some 0)) None 30 80 =
     Inr (Some ((29 / 31) ^ 30),
          Some ((29 / 31) ^ 30 - sqrt (1 / 31) * sqrt 80 / sqrt 252),
          Some ((29 / 31) ^ 30 + sqrt (1 / 31) * sqrt 80 / sqrt 252)) \<and>
   spec_project (1 # replicate 30 0) 30 80 0 = (0, 0, 0)"
proof -
  have in_eq: "Some 1 # replicate 30 (Some 0) = map Some (1 # replicate 30 (0::real))"
    by simp
  have tl: "tail 30 (1 # replicate 30 (0::real)) = replicate 30 0"
    by (simp add: tail_def)
  have "ema_last (2 / 31) (1 # replicate 30 0)
          = foldl (\<lambda>y v. (1 - 2 / 31) * y + 2 / 31 * v) 1 (replicate 30 (0::real))"
    by (simp only: ema_last_def list.sel)
  also have "\<dots> = (1 - 2 / 31) ^ 30 * 1" by (rule ema_foldl_zeros)
  finally have ema: "ema_last (2 / 31) (1 # replicate 30 0) = (29 / 31) ^ 30" by simp
  have "ema_last (2 / 31) (replicate 30 0)
          = foldl (\<lambda>y v. (1 - 2 / 31) * y + 2 / 31 * v) 0 (replicate 29 (0::real))"
    by (simp only: ema_last_def hd_replicate tl_replicate) simp
  also have "\<dots> = (1 - 2 / 31) ^ 29 * 0" by (rule ema_foldl_zeros)
  finally have ema0: "ema_last (2 / 31) (replicate 30 0) = 0" by simp
  have p: "project_future_price (Some 1 # replicate 30 (Some 0)) 30 =
     (Some ((29 / 31) ^ 30), Some ((29 / 31) ^ 30), Some ((29 / 31) ^ 30))"
    unfolding in_eq
    by (subst project_future_price_Some) (simp_all add: tl ema sample_std_zeros)
  have tt: "tail 30 (Some 1 # replicate 30 (Some (0::real))) = replicate 30 (Some 0)"
    by (simp add: tail_def)
  have t: "calculate_trend (Some 1 # replicate 30 (Some 0)) 30 = Inr (Some 0, ''Bajista'')"
    by (simp add: calculate_trend_def Let_def tt linregress_slope_zeros)
  have sd: "std (Some 1 # replicate 30 (Some 0)) = Some (sqrt (1 / 31))"
    unfolding in_eq by (simp add: std_Some sample_std_spike del: map_replicate list.map)
  have i: "project_instrument (Some 1 # replicate 30 (Some 0)) (Some 1 # replicate 30 (Some 0)) None 30 80 =
     Inr (Some ((29 / 31) ^ 30),
          Some ((29 / 31) ^ 30 - sqrt (1 / 31) * sqrt 80 / sqrt 252),
          Some ((29 / 31) ^ 30 + sqrt (1 / 31) * sqrt 80 / sqrt 252))"
    by (simp add: project_instrument_def p t sd isnan_def Let_def fl_add_def fl_sub_def fl_mul_def)
  have s: "spec_project (1 # replicate 30 0) 30 80 0 = (0, 0, 0)"
    by (simp add: spec_project_def Let_def tl ema0 sample_std_zeros)
  from p t i s show ?thesis by simp
qed

text \<open>
  C6, amended: for a frame of available closes \<open>xs\<close>, a column \<open>cs\<close> of at least two
  values in the merged table and a span of at least 2 and at most the number of closes, the
  tail length is the span; \<open>project_future_price\<close> returns the last value \<open>E\<close> of the
  exponential moving average with smoothing \<open>2 / (span + 1)\<close> run over all the closes,
  together with \<open>E - S\<close> and \<open>E + S\<close>, where \<open>S\<close> is the standard deviation of the last
  span closes; and the dashboard returns expected \<open>E + slope * days\<close>, lower
  \<open>E - S + slope * days - D\<close> and upper \<open>E + S + slope * days + D\<close>, where the drift
  \<open>D\<close> is the standard deviation of the whole column times \<open>sqrt days / sqrt 252\<close>. With
  at least 2 closes but fewer than the span, the slope is NaN and the three projected values
  are NaN. When the frame has exactly span closes and the column holds the same closes, the
  three values are those of the specification's wording.
\<close>

theorem projection_values:
  "(2 \<le> span_n \<and> span_n \<le> length xs \<and> 2 \<le> length cs \<longrightarrow>
      project_future_price (map Some xs) span_n =
        (Some (ema_last (2 / (real span_n + 1)) xs),
         Some (ema_last (2 / (real span_n + 1)) xs - sample_std (tail span_n xs)),
         Some (ema_last (2 / (real span_n + 1)) xs + sample_std (tail span_n xs))) \<and>
      (\<exists>slope label. calculate_trend (map Some xs) span_n = Inr (Some slope, label) \<and>
         project_instrument (map Some xs) (map Some cs) price span_n days_ahead =
           Inr (Some (ema_last (2 / (real span_n + 1)) xs + slope * real days_ahead),
                Some (ema_last (2 / (real span_n + 1)) xs - sample_std (tail span_n xs)
                        + slope * real days_ahead - sample_std cs * sqrt (real days_ahead) / sqrt 252),
                Some (ema_last (2 / (real span_n + 1)) xs + sample_std (tail span_n xs)
                        + slope * real days_ahead + sample_std cs * sqrt (real days_ahead) / sqrt 252)))) \<and>
   (2 \<le> length xs \<and> length xs < span_n \<longrightarrow>
      project_instrument (map Some xs) (map Some cs) price span_n days_ahead = Inr (None, None, None)) \<and>
   (2 \<le> span_n \<and> span_n = length xs \<longrightarrow>
      (\<exists>slope label. calculate_trend (map Some xs) span_n = Inr (Some slope, label) \<and>
         project_instrument (map Some xs) (map Some xs) price span_n days_ahead =
           Inr (Some (fst (spec_project xs span_n days_ahead slope)),
                Some (fst (snd (spec_project xs span_n days_ahead slope))),
                Some (snd (snd (spec_project xs span_n days_ahead slope))))))"
proof (intro conjI impI)
  assume h: "2 \<le> span_n \<and> span_n \<le> length xs \<and> 2 \<le> length cs"
  then have m: "min span_n (length xs) = span_n" and l2: "2 \<le> length xs" and s2: "2 \<le> span_n"
    by simp_all
  show "project_future_price (map Some xs) span_n =
        (Some (ema_last (2 / (real span_n + 1)) xs),
         Some (ema_last (2 / (real span_n + 1)) xs - sample_std (tail span_n xs)),
         Some (ema_last (2 / (real span_n + 1)) xs + sample_std (tail span_n xs)))"
    using project_future_price_Some [OF l2 s2] by (simp only: m)
  from h show "\<exists>slope label. calculate_trend (map Some xs) span_n = Inr (Some slope, label) \<and>
         project_instrument (map Some xs) (map Some cs) price span_n days_ahead =
           Inr (Some (ema_last (2 / (real span_n + 1)) xs + slope * real days_ahead),
                Some (ema_last (2 / (real span_n + 1)) xs - sample_std (tail span_n xs)
                        + slope * real days_ahead - sample_std cs * sqrt (real days_ahead) / sqrt 252),
                Some (ema_last (2 / (real span_n + 1)) xs + sample_std (tail span_n xs)
                        + slope * real days_ahead + sample_std cs * sqrt (real days_ahead) / sqrt 252))"
    by (intro project_instrument_Some) simp_all
next
  assume "2 \<le> length xs \<and> length xs < span_n"
  then show "project_instrument (map Some xs) (map Some cs) price span_n days_ahead = Inr (None, None, None)"
    by (intro project_instrument_short) simp_all
next
  assume h: "2 \<le> span_n \<and> span_n = length xs"
  then have a: "2 \<le> span_n" "span_n \<le> length xs" "2 \<le> length xs" by simp_all
  from project_instrument_Some [OF a, of price days_ahead] obtain slope label where
    t: "calculate_trend (map Some xs) span_n = Inr (Some slope, label)" and
    p: "project_instrument (map Some xs) (map Some xs) price span_n days_ahead =
       Inr (Some (ema_last (2 / (real span_n + 1)) xs + slope * real days_ahead),
            Some (ema_last (2 / (real span_n + 1)) xs - sample_std (tail span_n xs)
                    + slope * real days_ahead - sample_std xs * sqrt (real days_ahead) / sqrt 252),
            Some (ema_last (2 / (real span_n + 1)) xs + sample_std (tail span_n xs)
                    + slope * real days_ahead + sample_std xs * sqrt (real days_ahead) / sqrt 252))"
    by blast
  have tl: "tail span_n xs = xs" using h by (simp add: tail_def)
  have "project_instrument (map Some xs) (map Some xs) price span_n days_ahead =
           Inr (Some (fst (spec_project xs span_n days_ahead slope)),
                Some (fst (snd (spec_project xs span_n days_ahead slope))),
                Some (snd (snd (spec_project xs span_n days_ahead slope))))"
    using a(2) by (simp add: p spec_project_def Let_def tl real_sqrt_divide min_def)
  with t show "\<exists>slope label. calculate_trend (map Some xs) span_n = Inr (Some slope, label) \<and>
         project_instrument (map Some xs) (map Some xs) price span_n days_ahead =
           Inr (Some (fst (spec_project xs span_n days_ahead slope)),
                Some (fst (snd (spec_project xs span_n days_ahead slope))),
                Some (snd (snd (spec_project xs span_n days_ahead slope))))"
    by blast
qed


theorem projection_values_witness:
  "(2::nat) \<le> 3 \<and> 3 \<le> length [1, 2, 4::real] \<and> 2 \<le> length [1, 2, 4::real] \<and>
   project_future_price (map Some [1, 2, 4]) 3 =
     (Some (11 / 4), Some (11 / 4 - sample_std [1, 2, 4]), Some (11 / 4 + sample_std [1, 2, 4])) \<and>
   calculate_trend (map Some [1, 2, 4]) 3 = Inr (Some (3 / 2), ''Alcista'') \<and>
   project_instrument (map Some [1, 2, 4]) (map Some [1, 2, 4]) None 3 80 =
     Inr (Some (11 / 4 + 3 / 2 * 80),
          Some (11 / 4 - sample_std [1, 2, 4] + 3 / 2 * 80 - sample_std [1, 2, 4] * sqrt 80 / sqrt 252),
          Some (11 / 4 + sample_std [1, 2, 4] + 3 / 2 * 80 + sample_std [1, 2, 4] * sqrt 80 / sqrt 252)) \<and>
   2 \<le> length [1, 2::real] \<and> length [1, 2::real] < 30 \<and>
   project_instrument (map Some [1, 2]) (map Some [1, 2]) None 30 80 = Inr (None, None, None)"
proof -
  have e: "calculate_trend (map Some [1, 2, 4]) 3 = Inr (Some (3 / 2), ''Alcista'')"
    by code_simp
  have ema: "ema_last (2 / (real 3 + 1)) [1, 2, 4] = 11 / 4"
    by (simp add: ema_last_def)
  have tl: "tail 3 [1, 2, 4::real] = [1, 2, 4]"
    by (simp add: tail_def)
  have h: "2 \<le> (3::nat) \<and> 3 \<le> length [1, 2, 4::real] \<and> 2 \<le> length [1, 2, 4::real]"
    by simp
  from projection_values [of 3 "[1, 2, 4]" "[1, 2, 4]" None 80] h
  have p: "project_future_price (map Some [1, 2, 4]) 3 =
        (Some (ema_last (2 / (real 3 + 1)) [1, 2, 4]),
         Some (ema_last (2 / (real 3 + 1)) [1, 2, 4] - sample_std (tail 3 [1, 2, 4])),
         Some (ema_last (2 / (real 3 + 1)) [1, 2, 4] + sample_std (tail 3 [1, 2, 4])))"
    and "\<exists>slope label. calculate_trend (map Some [1, 2, 4]) 3 = Inr (Some slope, label) \<and>
         project_instrument (map Some [1, 2, 4]) (map Some [1, 2, 4]) None 3 80 =
           Inr (Some (ema_last (2 / (real 3 + 1)) [1, 2, 4] + slope * real 80),
                Some (ema_last (2 / (real 3 + 1)) [1, 2, 4] - sample_std (tail 3 [1, 2, 4])
                        + slope * real 80 - sample_std [1, 2, 4] * sqrt (real 80) / sqrt 252),
                Some (ema_last (2 / (real 3 + 1)) [1, 2, 4] + sample_std (tail 3 [1, 2, 4])
                        + slope * real 80 + sample_std [1, 2, 4] * sqrt (real 80) / sqrt 252))"
    by blast+
  then obtain slope label where
    t: "calculate_trend (map Some [1, 2, 4]) 3 = Inr (Some slope, label)" and
    i: "project_instrument (map Some [1, 2, 4]) (map Some [1, 2, 4]) None 3 80 =
           Inr (Some (ema_last (2 / (real 3 + 1)) [1, 2, 4] + slope * real 80),
                Some (ema_last (2 / (real 3 + 1)) [1, 2, 4] - sample_std (tail 3 [1, 2, 4])
                        + slope * real 80 - sample_std [1, 2, 4] * sqrt (real 80) / sqrt 252),
                Some (ema_last (2 / (real 3 + 1)) [1, 2, 4] + sample_std (tail 3 [1, 2, 4])
                        + slope * real 80 + sample_std [1, 2, 4] * sqrt (real 80) / sqrt 252))"
    by blast
  from t have sl: "slope = 3 / 2" unfolding e by simp
  have p': "project_future_price (map Some [1, 2, 4]) 3 =
     (Some (11 / 4), Some (11 / 4 - sample_std [1, 2, 4]), Some (11 / 4 + sample_std [1, 2, 4]))"
    using p unfolding ema tl .
  have i': "project_instrument (map Some [1, 2, 4]) (map Some [1, 2, 4]) None 3 80 =
     Inr (Some (11 / 4 + 3 / 2 * 80),
          Some (11 / 4 - sample_std [1, 2, 4] + 3 / 2 * 80 - sample_std [1, 2, 4] * sqrt 80 / sqrt 252),
          Some (11 / 4 + sample_std [1, 2, 4] + 3 / 2 * 80 + sample_std [1, 2, 4] * sqrt 80 / sqrt 252))"
    using i unfolding ema tl sl by simp
  have h2: "2 \<le> length [1, 2::real] \<and> length [1, 2::real] < 30" by simp
  from projection_values [of 30 "[1, 2]" "[1, 2]" None 80] h2
  have s: "project_instrument (map Some [1, 2]) (map Some [1, 2]) None 30 80 = Inr (None, None, None)"
    by blast
  from p' e i' s show ?thesis by simp
qed

section \<open>Properties of the projected quantities\<close>

lemma linregress_slope_value:
  assumes "2 \<le> length ys"
  shows "linregress_slope (arange (length ys)) (map Some ys) =
    Inr (Some ((\<Sum>i<length ys. (real i - (\<Sum>i<length ys. real i) / real (length ys))
                     * (ys ! i - (\<Sum>i<length ys. ys ! i) / real (length ys)))
               / (\<Sum>i<length ys. (real i - (\<Sum>i<length ys. real i) / real (length ys))\<^sup>2)))"
proof -
  define n where "n = length ys"
  define xm where "xm = (\<Sum>i<n. real i) / real n"
  define ym where "ym = (\<Sum>i<n. ys ! i) / real n"
  define sxx where "sxx = (\<Sum>i<n. (real i - xm)\<^sup>2)"
  define sxy where "sxy = (\<Sum>i<n. (real i - xm) * (ys ! i - ym))"
  have n2: "2 \<le> n" using assms by (simp add: n_def)
  have pos: "0 < sxx" unfolding sxx_def by (rule sxx_arange_pos [OF n2])
  have mx: "mean (arange n) = xm"
    using sum_list_arange [of "\<lambda>a. a" n] by (simp add: mean_def xm_def)
  have my: "mean ys = ym"
    by (simp add: mean_def ym_def n_def sum_list_nth)
  have ssxm: "sum_list (map (\<lambda>a. (a - xm) * (a - xm)) (arange n)) = sxx"
    by (simp add: sum_list_arange sxx_def power2_eq_square)
  have ssxym: "sum_list (map2 (\<lambda>a b. (a - xm) * (b - ym)) (arange n) ys) = sxy"
    by (simp add: sum_list_map2_arange [OF n_def [symmetric]] sxy_def)
  have nonempty: "arange n \<noteq> []" "ys \<noteq> []" using n2 by (auto simp: n_def arange_def)
  have nonan: "\<not> list_ex isnan (map Some ys)" by (simp add: list_ex_iff isnan_def)
  have the_ys: "map the (map Some ys) = ys" by (simp add: comp_def)
  have nz: "sxx / real n \<noteq> 0" using pos n2 by simp
  have "linregress_slope (arange n) (map Some ys) = Inr (Some (sxy / sxx))"
    unfolding linregress_slope_def
    using nonempty arange_not_constant [OF n2] nonan nz n2
    by (simp add: Let_def the_ys mx my ssxm ssxym)
  then show ?thesis
    unfolding sxy_def sxx_def xm_def ym_def n_def .
qed

lemma linregress_slope_ramp:
  assumes "2 \<le> n"
  shows "linregress_slope (arange n) (map Some (map (\<lambda>i. c + d * real i) [0..<n])) = Inr (Some d)"
proof -
  let ?ys = "map (\<lambda>i. c + d * real i) [0..<n]"
  define xm where "xm = (\<Sum>i<n. real i) / real n"
  have len: "length ?ys = n" by simp
  have nth: "\<And>i. i < n \<Longrightarrow> ?ys ! i = c + d * real i" by simp
  have n0: "real n \<noteq> 0" using assms by simp
  have "(\<Sum>i<n. ?ys ! i) = (\<Sum>i<n. c + d * real i)"
    by (intro sum.cong refl) (simp add: nth)
  also have "\<dots> = real n * c + d * (\<Sum>i<n. real i)"
    by (simp add: sum.distrib sum_distrib_left)
  finally have ym: "(\<Sum>i<n. ?ys ! i) / real n = c + d * xm"
    using n0 by (simp add: xm_def field_simps)
  have "(\<Sum>i<n. (real i - xm) * (?ys ! i - (c + d * xm))) = (\<Sum>i<n. d * (real i - xm)\<^sup>2)"
    by (intro sum.cong refl) (simp add: nth power2_eq_square algebra_simps)
  also have "\<dots> = d * (\<Sum>i<n. (real i - xm)\<^sup>2)"
    by (simp add: sum_distrib_left)
  finally have sxy: "(\<Sum>i<n. (real i - xm) * (?ys ! i - (c + d * xm))) = d * (\<Sum>i<n. (real i - xm)\<^sup>2)" .
  have pos: "0 < (\<Sum>i<n. (real i - xm)\<^sup>2)" by (rule sxx_arange_pos [OF assms])
  have "linregress_slope (arange (length ?ys)) (map Some ?ys) =
      Inr (Some ((\<Sum>i<n. (real i - xm) * (?ys ! i - (c + d * xm))) / (\<Sum>i<n. (real i - xm)\<^sup>2)))"
    using linregress_slope_value [of ?ys] assms
    unfolding len ym xm_def [symmetric] by simp
  then show ?thesis
    using pos unfolding sxy len by simp
qed

lemma tail_ramp_frame: "tail 30 (ramp_frame h c d) = map (\<lambda>i. c + d * real i) [0..<30]"
  by (simp add: tail_def ramp_frame_def)

lemma length_ramp_frame [simp]: "length (ramp_frame h c d) = 60"
  by (simp add: ramp_frame_def)

lemma calculate_trend_ramp:
  "calculate_trend (map Some (ramp_frame h c d)) 30 =
     Inr (Some d, if d > 0 then ''Alcista'' else ''Bajista'')"
proof -
  have t: "tail 30 (map Some (ramp_frame h c d)) = map Some (map (\<lambda>i. c + d * real i) [0..<30])"
    by (simp only: tail_map tail_ramp_frame)
  have l: "length (tail 30 (map Some (ramp_frame h c d))) = 30"
    by (simp add: length_tail)
  have ne: "map Some (ramp_frame h c d) \<noteq> []"
    by (simp add: ramp_frame_def)
  have s: "linregress_slope (arange 30) (map Some (map (\<lambda>i. c + d * real i) [0..<30])) = Inr (Some d)"
    by (rule linregress_slope_ramp) simp
  show ?thesis
    unfolding calculate_trend_def Let_def l
    using ne by (simp add: t s del: map_map)
qed

lemma sample_std_nonneg: "0 \<le> sample_std vs"
  unfolding sample_std_def
  by (intro real_sqrt_ge_zero divide_nonneg_nonneg sum_list_nonneg) auto

lemma ema_foldl_bounds:
  fixes alpha :: real
  assumes "0 \<le> alpha" "alpha \<le> 1" "lo \<le> y" "y \<le> hi" "\<forall>v\<in>set vs. lo \<le> v \<and> v \<le> hi"
  shows "lo \<le> foldl (\<lambda>y v. (1 - alpha) * y + alpha * v) y vs \<and>
         foldl (\<lambda>y v. (1 - alpha) * y + alpha * v) y vs \<le> hi"
  using assms(3-5)
proof (induction vs arbitrary: y)
  case Nil
  then show ?case by simp
next
  case (Cons v vs)
  have v: "lo \<le> v" "v \<le> hi" using Cons.prems by simp_all
  have a: "0 \<le> 1 - alpha" using assms(2) by simp
  have "(1 - alpha) * lo \<le> (1 - alpha) * y" "alpha * lo \<le> alpha * v"
    using a assms(1) Cons.prems(1) v by (simp_all add: mult_left_mono)
  then have l: "lo \<le> (1 - alpha) * y + alpha * v" by (simp add: algebra_simps)
  have "(1 - alpha) * y \<le> (1 - alpha) * hi" "alpha * v \<le> alpha * hi"
    using a assms(1) Cons.prems(2) v by (simp_all add: mult_left_mono)
  then have h: "(1 - alpha) * y + alpha * v \<le> hi" by (simp add: algebra_simps)
  from Cons.IH [OF l h] Cons.prems(3) show ?case by simp
qed

lemma ema_last_bounds:
  fixes alpha :: real
  assumes "0 \<le> alpha" "alpha \<le> 1" "xs \<noteq> []" "\<forall>v\<in>set xs. lo \<le> v \<and> v \<le> hi"
  shows "lo \<le> ema_last alpha xs \<and> ema_last alpha xs \<le> hi"
proof -
  from assms(3) obtain x rest where xs: "xs = x # rest" by (cases xs) auto
  show ?thesis
    unfolding ema_last_def xs list.sel
    by (rule ema_foldl_bounds [OF assms(1,2)]) (use assms(4) xs in simp_all)
qed

lemma ema_foldl_decay:
  fixes alpha :: real
  assumes "0 \<le> alpha" "alpha \<le> 1" "\<forall>v\<in>set vs. v \<le> m"
  shows "foldl (\<lambda>y v. (1 - alpha) * y + alpha * v) y vs \<le> m + (1 - alpha) ^ length vs * (y - m)"
  using assms(3)
proof (induction vs arbitrary: y)
  case Nil
  then show ?case by simp
next
  case (Cons v vs)
  have a: "0 \<le> (1 - alpha) ^ length vs" using assms(2) by simp
  have "alpha * v \<le> alpha * m" using assms(1) Cons.prems by (simp add: mult_left_mono)
  then have s: "(1 - alpha) * y + alpha * v - m \<le> (1 - alpha) * (y - m)"
    by (simp add: algebra_simps)
  have "foldl (\<lambda>y v. (1 - alpha) * y + alpha * v) ((1 - alpha) * y + alpha * v) vs
        \<le> m + (1 - alpha) ^ length vs * ((1 - alpha) * y + alpha * v - m)"
    using Cons.IH [of "(1 - alpha) * y + alpha * v"] Cons.prems by simp
  also have "\<dots> \<le> m + (1 - alpha) ^ length vs * ((1 - alpha) * (y - m))"
    using mult_left_mono [OF s a] by simp
  finally show ?case by (simp add: mult_ac)
qed

lemma ema_foldl_const:
  fixes alpha :: real
  shows "foldl (\<lambda>y v. (1 - alpha) * y + alpha * v) h (replicate n h) = h"
  by (induction n) (simp_all add: algebra_simps)

lemma ema_last_ramp_frame:
  "ema_last alpha (ramp_frame h c d)
     = foldl (\<lambda>y v. (1 - alpha) * y + alpha * v) h (map (\<lambda>i. c + d * real i) [0..<30])"
proof -
  have "ramp_frame h c d = h # (replicate 29 h @ map (\<lambda>i. c + d * real i) [0..<30])"
    by (simp add: ramp_frame_def numeral_eq_Suc)
  then show ?thesis
    by (simp add: ema_last_def ema_foldl_const)
qed

lemma sum_list_le_const:
  fixes f :: "'a \<Rightarrow> real"
  assumes "\<forall>v\<in>set vs. f v \<le> b"
  shows "sum_list (map f vs) \<le> real (length vs) * b"
  using assms by (induction vs) (auto simp: algebra_simps)

lemma sum_list_ge_const:
  fixes f :: "'a \<Rightarrow> real"
  assumes "\<forall>v\<in>set vs. b \<le> f v"
  shows "real (length vs) * b \<le> sum_list (map f vs)"
  using assms by (induction vs) (auto simp: algebra_simps)

lemma mean_bounds:
  assumes "vs \<noteq> []" "\<forall>v\<in>set vs. lo \<le> v \<and> v \<le> hi"
  shows "lo \<le> mean vs \<and> mean vs \<le> hi"
proof -
  have n: "0 < real (length vs)" using assms(1) by simp
  have "real (length vs) * lo \<le> sum_list vs" "sum_list vs \<le> real (length vs) * hi"
    using sum_list_ge_const [of vs lo "\<lambda>v. v"] sum_list_le_const [of vs "\<lambda>v. v" hi] assms(2)
    by simp_all
  then show ?thesis using n by (simp add: mean_def field_simps)
qed

lemma two_sq_le:
  fixes x :: real
  shows "2 * x\<^sup>2 \<le> (2 * x)\<^sup>2"
proof -
  have "0 \<le> x\<^sup>2" by simp
  moreover have "(2 * x)\<^sup>2 = 4 * x\<^sup>2" by (simp add: power_mult_distrib)
  ultimately show ?thesis by linarith
qed

lemma sample_std_le_range:
  assumes "2 \<le> length vs" "\<forall>v\<in>set vs. lo \<le> v \<and> v \<le> hi"
  shows "sample_std vs \<le> 2 * (hi - lo)"
proof -
  have ne: "vs \<noteq> []" using assms(1) by auto
  from mean_bounds [OF ne assms(2)] have m: "lo \<le> mean vs" "mean vs \<le> hi" by simp_all
  have r0: "0 \<le> hi - lo" using m by simp
  have sq: "\<forall>v\<in>set vs. (v - mean vs)\<^sup>2 \<le> (hi - lo)\<^sup>2"
  proof
    fix v assume "v \<in> set vs"
    with assms(2) have "lo \<le> v" "v \<le> hi" by simp_all
    with m have "\<bar>v - mean vs\<bar> \<le> hi - lo" by (simp add: abs_le_iff)
    then show "(v - mean vs)\<^sup>2 \<le> (hi - lo)\<^sup>2"
      using r0 by (metis abs_le_square_iff abs_of_nonneg)
  qed
  have s: "sum_list (map (\<lambda>v. (v - mean vs)\<^sup>2) vs) \<le> real (length vs) * (hi - lo)\<^sup>2"
    by (rule sum_list_le_const [OF sq])
  define k where "k = real (length vs - 1)"
  have n1: "0 < k" using assms(1) by (simp add: k_def)
  have n2: "real (length vs) \<le> 2 * k" using assms(1) by (simp add: k_def)
  have "sum_list (map (\<lambda>v. (v - mean vs)\<^sup>2) vs) / k
          \<le> real (length vs) * (hi - lo)\<^sup>2 / k"
    using s n1 by (simp add: divide_right_mono)
  also have "\<dots> \<le> (2 * k) * (hi - lo)\<^sup>2 / k"
    using n2 n1 by (intro divide_right_mono mult_right_mono) simp_all
  also have "\<dots> = 2 * (hi - lo)\<^sup>2" using n1 by simp
  also have "\<dots> \<le> (2 * (hi - lo))\<^sup>2" by (rule two_sq_le)
  finally have "sum_list (map (\<lambda>v. (v - mean vs)\<^sup>2) vs) / real (length vs - 1) \<le> (2 * (hi - lo))\<^sup>2"
    unfolding k_def .
  then show ?thesis
    unfolding sample_std_def using r0 by (intro real_le_lsqrt) simp_all
qed

lemma sqrt_ratio_le_1: "sqrt 80 / sqrt 252 \<le> 1"
  by simp

lemma sqrt_ratio_ge: "14 / 25 \<le> sqrt 80 / sqrt 252"
proof -
  have "(14 / 25 :: real) = sqrt ((14 / 25)\<^sup>2)" by simp
  also have "\<dots> \<le> sqrt (80 / 252)"
    by (subst real_sqrt_le_iff) (simp add: power2_eq_square)
  also have "\<dots> = sqrt 80 / sqrt 252" by (rule real_sqrt_divide)
  finally show ?thesis .
qed

lemma project_future_price_cases:
  assumes "project_future_price h s = (a, lo, hi)"
  shows "a = None \<or> (\<exists>E. a = Some E \<and> ((lo = None \<and> hi = None) \<or>
           (\<exists>sd. 0 \<le> sd \<and> lo = Some (E - sd) \<and> hi = Some (E + sd))))"
  using assms sample_std_nonneg
  by (auto simp: project_future_price_def Let_def std_def fl_sub_def fl_add_def isnan_def
        split: if_splits)

lemma project_instrument_ordered:
  assumes "project_instrument h col price s d = Inr (Some e, Some lo, Some hi)"
  shows "lo \<le> e \<and> e \<le> hi"
proof -
  obtain a mn mx where p: "project_future_price h s = (a, mn, mx)"
    by (cases "project_future_price h s") auto
  show ?thesis
  proof (cases a)
    case None
    with assms p show ?thesis by (auto simp: project_instrument_def isnan_def)
  next
    case (Some E)
    from project_future_price_cases [OF p] Some
    have c: "(mn = None \<and> mx = None) \<or> (\<exists>sd. 0 \<le> sd \<and> mn = Some (E - sd) \<and> mx = Some (E + sd))"
      by simp
    have dr: "\<And>x. std col = Some x \<Longrightarrow> 0 \<le> x * sqrt (real d) / sqrt 252"
      using sample_std_nonneg by (auto simp: std_def Let_def split: if_splits)
    from assms p Some c dr show ?thesis
      by (auto simp: project_instrument_def isnan_def Let_def fl_add_def fl_sub_def fl_mul_def
            split: sum.splits option.splits prod.splits)
  qed
qed

lemma project_instrument_ramp:
  "project_instrument (map Some (ramp_frame h c d)) (map Some (ramp_frame h c d)) price 30 80 =
     Inr (Some (ema_last (2 / 31) (ramp_frame h c d) + d * 80),
          Some (ema_last (2 / 31) (ramp_frame h c d) - sample_std (map (\<lambda>i. c + d * real i) [0..<30])
                  + d * 80 - sample_std (ramp_frame h c d) * sqrt 80 / sqrt 252),
          Some (ema_last (2 / 31) (ramp_frame h c d) + sample_std (map (\<lambda>i. c + d * real i) [0..<30])
                  + d * 80 + sample_std (ramp_frame h c d) * sqrt 80 / sqrt 252))"
proof -
  have a: "2 \<le> (30::nat)" "30 \<le> length (ramp_frame h c d)" "2 \<le> length (ramp_frame h c d)"
    by simp_all
  from project_instrument_Some [OF a, of price 80] obtain slope label where
    t: "calculate_trend (map Some (ramp_frame h c d)) 30 = Inr (Some slope, label)" and
    p: "project_instrument (map Some (ramp_frame h c d)) (map Some (ramp_frame h c d)) price 30 80 =
       Inr (Some (ema_last (2 / (real 30 + 1)) (ramp_frame h c d) + slope * real 80),
            Some (ema_last (2 / (real 30 + 1)) (ramp_frame h c d) - sample_std (tail 30 (ramp_frame h c d))
                    + slope * real 80 - sample_std (ramp_frame h c d) * sqrt (real 80) / sqrt 252),
            Some (ema_last (2 / (real 30 + 1)) (ramp_frame h c d) + sample_std (tail 30 (ramp_frame h c d))
                    + slope * real 80 + sample_std (ramp_frame h c d) * sqrt (real 80) / sqrt 252))"
    by blast
  from t have sl: "slope = d" unfolding calculate_trend_ramp by simp
  show ?thesis
    unfolding p sl tail_ramp_frame by simp
qed

lemma ramp_frame_range:
  assumes "0 \<le> d"
  shows "\<forall>v\<in>set (ramp_frame c c d). c \<le> v \<and> v \<le> c + 29 * d"
proof
  fix v assume "v \<in> set (ramp_frame c c d)"
  then consider "v = c" | i where "i < 30" "v = c + d * real i"
    by (auto simp: ramp_frame_def)
  then show "c \<le> v \<and> v \<le> c + 29 * d"
  proof cases
    case 1
    then show ?thesis using assms by simp
  next
    case 2
    then have "real i \<le> 29" by simp
    then have "d * real i \<le> d * 29" using assms by (rule mult_left_mono)
    then show ?thesis using 2 assms by simp
  qed
qed

lemma ramp_tail_range:
  assumes "0 \<le> d"
  shows "\<forall>v\<in>set (map (\<lambda>i. c + d * real i) [0..<30]). c \<le> v \<and> v \<le> c + 29 * d"
proof
  fix v assume "v \<in> set (map (\<lambda>i. c + d * real i) [0..<30])"
  then obtain i where i: "i < 30" "v = c + d * real i" by auto
  then have "real i \<le> 29" by simp
  then have "d * real i \<le> d * 29" using assms by (rule mult_left_mono)
  then show "c \<le> v \<and> v \<le> c + 29 * d" using i assms by simp
qed

lemma project_instrument_calm:
  assumes "0 \<le> d" "36 * d < c"
  shows "lower_bound_positive
    (project_instrument (map Some (ramp_frame c c d)) (map Some (ramp_frame c c d)) price 30 80)"
proof -
  let ?E = "ema_last (2 / 31) (ramp_frame c c d)"
  let ?S = "sample_std (map (\<lambda>i. c + d * real i) [0..<30])"
  let ?C = "sample_std (ramp_frame c c d)"
  have ne: "ramp_frame c c d \<noteq> []" by (simp add: ramp_frame_def)
  have E: "c \<le> ?E"
    using ema_last_bounds [OF _ _ ne ramp_frame_range [OF assms(1)], of "2 / 31"] by simp
  have S: "?S \<le> 2 * (c + 29 * d - c)"
    by (rule sample_std_le_range [OF _ ramp_tail_range [OF assms(1)]]) simp
  have C: "?C \<le> 2 * (c + 29 * d - c)"
    by (rule sample_std_le_range [OF _ ramp_frame_range [OF assms(1)]]) simp
  have "?C * (sqrt 80 / sqrt 252) \<le> ?C * 1"
    by (rule mult_left_mono [OF sqrt_ratio_le_1 sample_std_nonneg])
  then have D: "?C * sqrt 80 / sqrt 252 \<le> 58 * d" using C by simp
  have "0 < ?E - ?S + d * 80 - ?C * sqrt 80 / sqrt 252"
    using E S D assms(2) by simp
  then show ?thesis
    by (simp add: project_instrument_ramp lower_bound_positive_def)
qed

lemma project_instrument_spike:
  "\<exists>e lo hi. project_instrument (map Some (ramp_frame 100 1 (1 / 100)))
        (map Some (ramp_frame 100 1 (1 / 100))) price 30 80 = Inr (Some e, Some lo, Some hi) \<and>
      lo < 0 \<and> 0 < e"
proof -
  let ?P = "map (\<lambda>i. 1 + 1 / 100 * real i) [0..<30]"
  let ?F = "ramp_frame 100 1 (1 / 100)"
  let ?f = "\<lambda>y v. (1 - 2 / 31) * y + 2 / 31 * (v::real)"
  let ?E = "ema_last (2 / 31) ?F"
  let ?S = "sample_std ?P"
  let ?C = "sample_std ?F"
  have F: "?F = replicate 30 100 @ ?P" by (simp add: ramp_frame_def)
  have rng: "\<forall>v\<in>set ?P. 1 \<le> v \<and> v \<le> 2"
    using ramp_tail_range [of "1 / 100" 1] by auto
  have rng100: "\<forall>v\<in>set ?P. 1 \<le> v \<and> v \<le> 100"
    using rng by auto
  have Eeq: "?E = foldl ?f 100 ?P" by (rule ema_last_ramp_frame)
  have "foldl ?f 100 ?P \<le> 2 + (1 - 2 / 31) ^ length ?P * (100 - 2)"
    by (rule ema_foldl_decay) (use rng in auto)
  also have "\<dots> = 2 + (29 / 31) ^ 30 * 98" by simp
  also have "\<dots> \<le> 2 + 7 / 50 * 98"
  proof -
    have "(29 / 31 :: real) ^ 30 \<le> 7 / 50" by (simp add: power_divide)
    then show ?thesis by simp
  qed
  finally have Eub: "?E \<le> 1572 / 100" unfolding Eeq by simp
  have Elb: "1 \<le> ?E"
    unfolding Eeq using ema_foldl_bounds [of "2 / 31" 1 100 100 ?P] rng100 by simp
  have sumP: "sum_list ?P \<le> real (length ?P) * 2"
    using sum_list_le_const [of ?P "\<lambda>v. v" 2] rng by simp
  have "sum_list ?F = 3000 + sum_list ?P" unfolding F by (simp add: sum_list_replicate)
  then have "sum_list ?F \<le> 3060" using sumP by simp
  then have m: "mean ?F \<le> 51" by (simp add: mean_def)
  have "49 \<le> 100 - mean ?F" using m by simp
  then have "49\<^sup>2 \<le> (100 - mean ?F)\<^sup>2" by (intro power_mono) simp_all
  then have sq: "2401 \<le> (100 - mean ?F)\<^sup>2" by simp
  have "0 \<le> sum_list (map (\<lambda>v. (v - mean ?F)\<^sup>2) ?P)"
    by (intro sum_list_nonneg) auto
  moreover have "sum_list (map (\<lambda>v. (v - mean ?F)\<^sup>2) (replicate 30 100 @ ?P))
      = 30 * (100 - mean ?F)\<^sup>2 + sum_list (map (\<lambda>v. (v - mean ?F)\<^sup>2) ?P)"
    by (simp add: sum_list_replicate del: map_map)
  ultimately have "30 * 2401 \<le> sum_list (map (\<lambda>v. (v - mean ?F)\<^sup>2) (replicate 30 100 @ ?P))"
    using sq by linarith
  then have "72030 \<le> sum_list (map (\<lambda>v. (v - mean ?F)\<^sup>2) ?F)"
    using F by simp
  then have V: "34\<^sup>2 \<le> sum_list (map (\<lambda>v. (v - mean ?F)\<^sup>2) ?F) / real (length ?F - 1)"
    by simp
  have Clb: "34 \<le> ?C"
    unfolding sample_std_def by (rule real_le_rsqrt [OF V])
  have "34 * (14 / 25) \<le> ?C * (sqrt 80 / sqrt 252)"
    by (rule mult_mono [OF Clb sqrt_ratio_ge]) (use sample_std_nonneg in simp_all)
  then have D: "1904 / 100 \<le> ?C * sqrt 80 / sqrt 252" by (simp only: times_divide_eq_right)
  have S: "0 \<le> ?S" by (rule sample_std_nonneg)
  have lo: "?E - ?S + 1 / 100 * 80 - ?C * sqrt 80 / sqrt 252 < 0"
    using Eub S D by linarith
  have e: "0 < ?E + 1 / 100 * 80" using Elb by linarith
  show ?thesis
    unfolding project_instrument_ramp using lo e by blast
qed

lemma lower_bound_positiveD:
  assumes "lower_bound_positive r"
  shows "\<exists>e lo hi. r = Inr (Some e, Some lo, Some hi) \<and> 0 < lo"
  using assms
  by (auto simp: lower_bound_positive_def split: sum.splits prod.splits option.splits)

lemma projection_numericD:
  assumes "projection_numeric r"
  shows "\<exists>e lo hi. r = Inr (Some e, Some lo, Some hi)"
  using assms
  by (auto simp: projection_numeric_def split: sum.splits prod.splits option.splits)

lemma lower_bound_positive_numeric: "lower_bound_positive r \<Longrightarrow> projection_numeric r"
  by (auto simp: lower_bound_positive_def projection_numeric_def
        split: sum.splits prod.splits option.splits)

lemma projection_4_months_Inr:
  assumes "project_instrument copper_hist copper_column copper_price 30 80 = Inr copper"
    and "project_instrument oil_hist oil_column oil_price 30 80 = Inr oil"
    and "project_instrument eur_cny_hist eur_cny_column eur_cny_price 30 80 = Inr eur_cny"
    and "project_instrument usd_cny_hist usd_cny_column usd_cny_price 30 80 = Inr usd_cny"
  shows "projection_4_months b p t copper_hist oil_hist eur_cny_hist usd_cny_hist
           copper_column oil_column eur_cny_column usd_cny_column
           copper_price oil_price eur_cny_price usd_cny_price
         = Inr (projected_quantities b p t copper oil eur_cny usd_cny)"
  using assms by (simp add: projection_4_months_def Let_def)

subsection \<open>C3: the three projected quantities\<close>

text \<open>
  C3 as stated fails: a positive slope of every instrument does not make the projected
  bounds positive. Take for copper 30 closes at 100 followed by 30 closes rising from 1 by
  0.01 a day, and for oil, EUR/CNY and USD/CNY frames that stay at 80, 8 and 7 and then rise
  slowly, each frame also being its column of the historical table. All four slopes are
  positive, but the spread of the whole copper column pushes the projected minimum copper
  price below zero, so the scenario meant to give the maximum quantity gives a negative
  quantity, strictly below the expected one.
\<close>

theorem projection_max_below_expected:
  "calculate_trend (map Some (ramp_frame 100 1 (1 / 100))) 30 = Inr (Some (1 / 100), ''Alcista'') \<and>
   calculate_trend (map Some (ramp_frame 80 80 (1 / 100))) 30 = Inr (Some (1 / 100), ''Alcista'') \<and>
   calculate_trend (map Some (ramp_frame 8 8 (1 / 1000))) 30 = Inr (Some (1 / 1000), ''Alcista'') \<and>
   calculate_trend (map Some (ramp_frame 7 7 (1 / 1000))) 30 = Inr (Some (1 / 1000), ''Alcista'') \<and>
   max_below_expected
     (projection_4_months 100000 50 1
        (map Some (ramp_frame 100 1 (1 / 100))) (map Some (ramp_frame 80 80 (1 / 100)))
        (map Some (ramp_frame 8 8 (1 / 1000))) (map Some (ramp_frame 7 7 (1 / 1000)))
        (map Some (ramp_frame 100 1 (1 / 100))) (map Some (ramp_frame 80 80 (1 / 100)))
        (map Some (ramp_frame 8 8 (1 / 1000))) (map Some (ramp_frame 7 7 (1 / 1000)))
        (Some 4.5) (Some 80) (Some 7.8) (Some 7.2))"
proof -
  let ?c = "map Some (ramp_frame 100 1 (1 / 100))"
  let ?o = "map Some (ramp_frame 80 80 (1 / 100))"
  let ?e = "map Some (ramp_frame 8 8 (1 / 1000))"
  let ?u = "map Some (ramp_frame 7 7 (1 / 1000))"
  from project_instrument_spike [of "Some 4.5"] obtain cf cmin cmax where
    c: "project_instrument ?c ?c (Some 4.5) 30 80 = Inr (Some cf, Some cmin, Some cmax)"
    and cneg: "cmin < 0" and cpos: "0 < cf" by blast
  have "lower_bound_positive (project_instrument ?o ?o (Some 80) 30 80)"
    by (rule project_instrument_calm) simp_all
  from lower_bound_positiveD [OF this] obtain oilf oilmin oilmax where
    o: "project_instrument ?o ?o (Some 80) 30 80 = Inr (Some oilf, Some oilmin, Some oilmax)" by blast
  have "lower_bound_positive (project_instrument ?e ?e (Some 7.8) 30 80)"
    by (rule project_instrument_calm) simp_all
  from lower_bound_positiveD [OF this] obtain ef emin emax where
    e: "project_instrument ?e ?e (Some 7.8) 30 80 = Inr (Some ef, Some emin, Some emax)"
    and epos: "0 < emin" by blast
  have "lower_bound_positive (project_instrument ?u ?u (Some 7.2) 30 80)"
    by (rule project_instrument_calm) simp_all
  from lower_bound_positiveD [OF this] obtain uf umin umax where
    u: "project_instrument ?u ?u (Some 7.2) 30 80 = Inr (Some uf, Some umin, Some umax)"
    and upos: "0 < umin" by blast
  from project_instrument_ordered [OF c] have co: "cmin \<le> cf" "cf \<le> cmax" by simp_all
  from project_instrument_ordered [OF e] have eo: "emin \<le> ef" "ef \<le> emax" by simp_all
  from project_instrument_ordered [OF u] have uo: "umin \<le> uf" "uf \<le> umax" by simp_all
  have pos: "0 < ef" "0 < emax" "0 < uf" "0 < umax" "0 < cmax"
    using epos eo upos uo cpos co by simp_all
  have nz: "cf * uf \<noteq> 0" "cmax * umax \<noteq> 0" "cmin * umin \<noteq> 0"
    using cpos cneg upos pos by simp_all
  let ?qe = "100000 * ef * (50 / 100) / (cf * uf) * 0.000453592"
  let ?qmin = "100000 * emin * (50 / 100) / (cmax * umax) * 0.000453592"
  let ?qmax = "100000 * emax * (50 / 100) / (cmin * umin) * 0.000453592"
  have r: "projection_4_months 100000 50 1 ?c ?o ?e ?u ?c ?o ?e ?u (Some 4.5) (Some 80) (Some 7.8) (Some 7.2)
      = Inr (Some ?qe, Some ?qmin, Some ?qmax)"
    unfolding projection_4_months_Inr [OF c o e u]
    using nz by (simp add: projected_quantities_def calculate_order_Some order_body_quantities)
  have "0 < 100000 * ef * (50 / 100) / (cf * uf)"
    using pos cpos by simp
  then have qe: "0 < ?qe" by simp
  have "cmin * umin < 0" using cneg upos by (simp add: mult_neg_pos)
  then have "100000 * emax * (50 / 100) / (cmin * umin) < 0"
    using pos by (simp add: divide_pos_neg)
  then have qmax: "?qmax < 0" by (simp add: mult_neg_pos)
  have m: "max_below_expected (projection_4_months 100000 50 1 ?c ?o ?e ?u ?c ?o ?e ?u
      (Some 4.5) (Some 80) (Some 7.8) (Some 7.2))"
    unfolding r max_below_expected_def using qe qmax by simp
  show ?thesis
    using m by (simp add: calculate_trend_ramp)
qed

text \<open>
  C3, amended: the projection calls the calculator three times; the minimum quantity pairs
  the maximum copper price, maximum oil price, minimum EUR/CNY rate and maximum USD/CNY rate,
  and the maximum quantity pairs the opposite bounds. For a non-negative budget and copper
  percentage, whenever the projected lower bounds of the copper price, the EUR/CNY rate and
  the USD/CNY rate are positive and the oil projection consists of numbers, the three
  quantities are numbers and the minimum quantity is at most the expected one, which is at
  most the maximum one. A positive slope is neither needed for this nor enough.
\<close>

theorem projection_4_months_ordered:
  assumes "0 \<le> b" "0 \<le> p"
    and "lower_bound_positive (project_instrument copper_hist copper_column copper_price 30 80)"
    and "projection_numeric (project_instrument oil_hist oil_column oil_price 30 80)"
    and "lower_bound_positive (project_instrument eur_cny_hist eur_cny_column eur_cny_price 30 80)"
    and "lower_bound_positive (project_instrument usd_cny_hist usd_cny_column usd_cny_price 30 80)"
  shows "\<exists>cf cmin cmax oilf oilmin oilmax ef emin emax uf umin umax.
    project_instrument copper_hist copper_column copper_price 30 80 = Inr (Some cf, Some cmin, Some cmax) \<and>
    project_instrument oil_hist oil_column oil_price 30 80 = Inr (Some oilf, Some oilmin, Some oilmax) \<and>
    project_instrument eur_cny_hist eur_cny_column eur_cny_price 30 80 = Inr (Some ef, Some emin, Some emax) \<and>
    project_instrument usd_cny_hist usd_cny_column usd_cny_price 30 80 = Inr (Some uf, Some umin, Some umax) \<and>
    projection_4_months b p t copper_hist oil_hist eur_cny_hist usd_cny_hist
        copper_column oil_column eur_cny_column usd_cny_column
        copper_price oil_price eur_cny_price usd_cny_price =
      Inr (copper_quantity_ton (calculate_order b p t (Some cf) (Some oilf) (Some ef) (Some uf)),
           copper_quantity_ton (calculate_order b p t (Some cmax) (Some oilmax) (Some emin) (Some umax)),
           copper_quantity_ton (calculate_order b p t (Some cmin) (Some oilmin) (Some emax) (Some umin))) \<and>
    quantities_ordered
      (projection_4_months b p t copper_hist oil_hist eur_cny_hist usd_cny_hist
        copper_column oil_column eur_cny_column usd_cny_column
        copper_price oil_price eur_cny_price usd_cny_price)"
proof -
  from lower_bound_positiveD [OF assms(3)] obtain cf cmin cmax where
    c: "project_instrument copper_hist copper_column copper_price 30 80 = Inr (Some cf, Some cmin, Some cmax)"
    and cpos: "0 < cmin" by blast
  from projection_numericD [OF assms(4)] obtain oilf oilmin oilmax where
    o: "project_instrument oil_hist oil_column oil_price 30 80 = Inr (Some oilf, Some oilmin, Some oilmax)"
    by blast
  from lower_bound_positiveD [OF assms(5)] obtain ef emin emax where
    e: "project_instrument eur_cny_hist eur_cny_column eur_cny_price 30 80 = Inr (Some ef, Some emin, Some emax)"
    and epos: "0 < emin" by blast
  from lower_bound_positiveD [OF assms(6)] obtain uf umin umax where
    u: "project_instrument usd_cny_hist usd_cny_column usd_cny_price 30 80 = Inr (Some uf, Some umin, Some umax)"
    and upos: "0 < umin" by blast
  from project_instrument_ordered [OF c] have co: "cmin \<le> cf" "cf \<le> cmax" by simp_all
  from project_instrument_ordered [OF e] have eo: "emin \<le> ef" "ef \<le> emax" by simp_all
  from project_instrument_ordered [OF u] have uo: "umin \<le> uf" "uf \<le> umax" by simp_all
  from projected_quantities_mono [OF assms(1,2) cpos co epos eo upos uo, of t oilf oilmin oilmax]
  obtain qe qmin qmax where
    q: "projected_quantities b p t (Some cf, Some cmin, Some cmax) (Some oilf, Some oilmin, Some oilmax)
        (Some ef, Some emin, Some emax) (Some uf, Some umin, Some umax) = (Some qe, Some qmin, Some qmax)"
    and ord: "qmin \<le> qe" "qe \<le> qmax" by blast
  have r: "projection_4_months b p t copper_hist oil_hist eur_cny_hist usd_cny_hist
        copper_column oil_column eur_cny_column usd_cny_column
        copper_price oil_price eur_cny_price usd_cny_price
      = Inr (projected_quantities b p t (Some cf, Some cmin, Some cmax) (Some oilf, Some oilmin, Some oilmax)
        (Some ef, Some emin, Some emax) (Some uf, Some umin, Some umax))"
    by (rule projection_4_months_Inr [OF c o e u])
  have pair: "projected_quantities b p t (Some cf, Some cmin, Some cmax) (Some oilf, Some oilmin, Some oilmax)
        (Some ef, Some emin, Some emax) (Some uf, Some umin, Some umax) =
      (copper_quantity_ton (calculate_order b p t (Some cf) (Some oilf) (Some ef) (Some uf)),
       copper_quantity_ton (calculate_order b p t (Some cmax) (Some oilmax) (Some emin) (Some umax)),
       copper_quantity_ton (calculate_order b p t (Some cmin) (Some oilmin) (Some emax) (Some umin)))"
    by (simp add: projected_quantities_def)
  have ordered: "quantities_ordered
      (projection_4_months b p t copper_hist oil_hist eur_cny_hist usd_cny_hist
        copper_column oil_column eur_cny_column usd_cny_column
        copper_price oil_price eur_cny_price usd_cny_price)"
    unfolding r q quantities_ordered_def using ord by simp
  from c o e u r pair ordered show ?thesis by metis
qed

theorem projection_4_months_ordered_witness:
  "(0::real) \<le> 100000 \<and> (0::real) \<le> 50 \<and>
   lower_bound_positive (project_instrument (map Some (ramp_frame 4 4 (1 / 1000)))
      (map Some (ramp_frame 4 4 (1 / 1000))) (Some 4.5) 30 80) \<and>
   projection_numeric (project_instrument (map Some (ramp_frame 80 80 (1 / 100)))
      (map Some (ramp_frame 80 80 (1 / 100))) (Some 80) 30 80) \<and>
   lower_bound_positive (project_instrument (map Some (ramp_frame 8 8 (1 / 1000)))
      (map Some (ramp_frame 8 8 (1 / 1000))) (Some 7.8) 30 80) \<and>
   lower_bound_positive (project_instrument (map Some (ramp_frame 7 7 (1 / 1000)))
      (map Some (ramp_frame 7 7 (1 / 1000))) (Some 7.2) 30 80) \<and>
   quantities_ordered
     (projection_4_months 100000 50 1
        (map Some (ramp_frame 4 4 (1 / 1000))) (map Some (ramp_frame 80 80 (1 / 100)))
        (map Some (ramp_frame 8 8 (1 / 1000))) (map Some (ramp_frame 7 7 (1 / 1000)))
        (map Some (ramp_frame 4 4 (1 / 1000))) (map Some (ramp_frame 80 80 (1 / 100)))
        (map Some (ramp_frame 8 8 (1 / 1000))) (map Some (ramp_frame 7 7 (1 / 1000)))
        (Some 4.5) (Some 80) (Some 7.8) (Some 7.2))"
proof -
  have b: "(0::real) \<le> 100000" and p: "(0::real) \<le> 50" by simp_all
  have c: "lower_bound_positive (project_instrument (map Some (ramp_frame 4 4 (1 / 1000)))
      (map Some (ramp_frame 4 4 (1 / 1000))) (Some 4.5) 30 80)"
    by (rule project_instrument_calm) simp_all
  have o: "projection_numeric (project_instrument (map Some (ramp_frame 80 80 (1 / 100)))
      (map Some (ramp_frame 80 80 (1 / 100))) (Some 80) 30 80)"
    by (rule lower_bound_positive_numeric, rule project_instrument_calm) simp_all
  have e: "lower_bound_positive (project_instrument (map Some (ramp_frame 8 8 (1 / 1000)))
      (map Some (ramp_frame 8 8 (1 / 1000))) (Some 7.8) 30 80)"
    by (rule project_instrument_calm) simp_all
  have u: "lower_bound_positive (project_instrument (map Some (ramp_frame 7 7 (1 / 1000)))
      (map Some (ramp_frame 7 7 (1 / 1000))) (Some 7.2) 30 80)"
    by (rule project_instrument_calm) simp_all
  from projection_4_months_ordered [OF b p c o e u, of 1] b p c o e u show ?thesis by blast
qed

end
